theory Spec2Isabelle
  imports Complex_Main
begin

section \<open>JavaScript values and objects\<close>

text \<open>
  The server is written in JavaScript: a device is a plain object whose keys are created
  by assignment, and the claims about the in-memory fallback depend on which keys an
  object holds. Values are therefore modelled as a datatype and objects as association
  lists in insertion order. \<open>JDate t\<close> is a \<open>Date\<close> object for the instant \<open>t\<close>
  (milliseconds since the epoch), \<open>JIso t\<close> the ISO-8601 string that
  \<open>toISOString()\<close> produces for \<open>t\<close>; \<open>JStr\<close> holds the UTF-8 bytes of any
  other string. Numbers are reals (NaN and the infinities are not represented).
\<close>

datatype jsval =
    JUndefined
  | JNull
  | JBool bool
  | JNum real
  | JStr string
  | JDate int
  | JIso int
  | JObj "(string \<times> jsval) list"

type_synonym obj = "(string \<times> jsval) list"

text \<open>Truthiness, as used by \<open>||\<close>, \<open>&&\<close>, \<open>?:\<close> and \<open>if\<close>.\<close>

fun truthy :: "jsval \<Rightarrow> bool" where
  "truthy JUndefined = False"
| "truthy JNull = False"
| "truthy (JBool b) = b"
| "truthy (JNum x) = (x \<noteq> 0)"
| "truthy (JStr s) = (s \<noteq> [])"
| "truthy (JDate t) = True"
| "truthy (JIso t) = True"
| "truthy (JObj ob) = True"

definition jor :: "jsval \<Rightarrow> jsval \<Rightarrow> jsval" where
  "jor a b = (if truthy a then a else b)"

text \<open>Property read \<open>o.k\<close> on an object: a missing key reads as \<open>undefined\<close>.\<close>

definition jget :: "obj \<Rightarrow> string \<Rightarrow> jsval" where
  "jget ob k = (case map_of ob k of None \<Rightarrow> JUndefined | Some v \<Rightarrow> v)"

text \<open>Property write \<open>o.k = v\<close>: an existing key keeps its place, a new one is appended.\<close>

fun jset :: "obj \<Rightarrow> string \<Rightarrow> jsval \<Rightarrow> obj" where
  "jset [] k v = [(k, v)]"
| "jset ((k', v') # ob) k v = (if k' = k then (k, v) # ob else (k', v') # jset ob k v)"

text \<open>\<open>Object.assign(target, source)\<close>: every own key of the source is written, in order,
  also when its value is \<open>undefined\<close>.\<close>

definition assign :: "obj \<Rightarrow> obj \<Rightarrow> obj" where
  "assign target source = foldl (\<lambda>t (k, v). jset t k v) target source"

text \<open>Property read \<open>v.k\<close> on any value that is neither \<open>null\<close> nor \<open>undefined\<close>
  (on those two the read throws a TypeError, which the callers model). The keys read by
  the server are not properties of any primitive, so a primitive yields \<open>undefined\<close>.\<close>

fun readProp :: "jsval \<Rightarrow> string \<Rightarrow> jsval" where
  "readProp (JObj ob) k = jget ob k"
| "readProp _ k = JUndefined"

text \<open>The JSON body sent to the store: \<open>JSON.stringify\<close> drops keys whose value is
  \<open>undefined\<close> and writes a \<open>Date\<close> as its ISO string.\<close>

fun json_value :: "jsval \<Rightarrow> jsval" where
  "json_value (JDate t) = JIso t"
| "json_value v = v"

definition json_body :: "obj \<Rightarrow> obj" where
  "json_body ob = map (\<lambda>(k, v). (k, json_value v)) (filter (\<lambda>(k, v). v \<noteq> JUndefined) ob)"

text \<open>\<open>new Date(v).getTime()\<close>; \<open>None\<close> is NaN (an invalid date). Date strings are
  \<open>JIso\<close>; a \<open>JStr\<close> is text that does not parse as a date.\<close>

fun dateTime :: "jsval \<Rightarrow> int option" where
  "dateTime (JDate t) = Some t"
| "dateTime (JIso t) = Some t"
| "dateTime (JNum x) = Some (if 0 \<le> x then \<lfloor>x\<rfloor> else \<lceil>x\<rceil>)"
| "dateTime (JBool b) = Some (if b then 1 else 0)"
| "dateTime JNull = Some 0"
| "dateTime _ = None"

text \<open>\<open>xs.slice(start)\<close>; \<open>None\<close> is a NaN argument, which counts as 0. A negative
  start counts from the end and is clamped at the beginning.\<close>

definition slice_from :: "'a list \<Rightarrow> int option \<Rightarrow> 'a list" where
  "slice_from xs start =
     (case start of
        None \<Rightarrow> xs
      | Some s \<Rightarrow> if s < 0 then drop (nat (int (length xs) + s)) xs else drop (nat s) xs)"

text \<open>Template literal \<open>`${n}`\<close> of an integer: its decimal digits.\<close>

function decimal_digits :: "int \<Rightarrow> string" where
  "decimal_digits n =
     (if n < 10 then [char_of (48 + n)]
      else decimal_digits (n div 10) @ [char_of (48 + n mod 10)])"
  by pat_completeness auto
termination
  by (relation "measure nat") auto

definition decimal :: "int \<Rightarrow> string" where
  "decimal i = (if i < 0 then CHR ''-'' # decimal_digits (- i) else decimal_digits i)"

section \<open>Process state\<close>

text \<open>
  The module-level variables of \<open>server.js\<close>, the two tables of \<open>schema.sql\<close> that
  the Supabase client reads and writes, and logs of what was sent to the MQTT broker and
  broadcast on Socket.io. \<open>dbOnline\<close> says whether a request to the store succeeds at
  all; when it is false every request returns an error. Each operation takes the clock
  reading \<open>now\<close> (\<open>Date.now()\<close>, \<open>new Date()\<close>) as an argument.

  The store keeps rows as objects with the column names of \<open>schema.sql\<close> and stores the
  values it is sent as they are; its constraints (primary key, NOT NULL, defaults,
  ON DELETE CASCADE) are modelled, the numeric column types are not.
\<close>

record state =
  useDatabase :: bool
  dbOnline :: bool
  devicesTable :: "obj list"
  sensorHistoryTable :: "obj list"
  sensorHistorySerial :: nat
  memoryDevices :: "obj list"
  memorySensorHistory :: "string \<Rightarrow> obj list option"
  deviceLastSeen :: "string \<Rightarrow> int option"
  mqttConnected :: bool
  mqttPublished :: "(string \<times> obj) list"
  ioEmitted :: "(string \<times> jsval) list"

definition OFFLINE_TIMEOUT :: int where
  "OFFLINE_TIMEOUT = 20000"

definition MQTT_TOPIC_PREFIX :: string where
  "MQTT_TOPIC_PREFIX = ''smartfarm''"

definition seedName :: string where
  "seedName = [CHR 0xE0, CHR 0xB8, CHR 0xAA, CHR 0xE0, CHR 0xB8, CHR 0xA7, CHR 0xE0, CHR 0xB8,
     CHR 0x99, CHR 0xE0, CHR 0xB8, CHR 0xAB, CHR 0xE0, CHR 0xB8, CHR 0x99, CHR 0xE0, CHR 0xB9,
     CHR 0x89, CHR 0xE0, CHR 0xB8, CHR 0xB2, CHR 0xE0, CHR 0xB8, CHR 0x9A, CHR 0xE0, CHR 0xB9,
     CHR 0x89, CHR 0xE0, CHR 0xB8, CHR 0xB2, CHR 0xE0, CHR 0xB8, CHR 0x99]"

definition gardenLabel :: string where
  "gardenLabel = [CHR 0xF0, CHR 0x9F, CHR 0x8C, CHR 0xB3, CHR 0x20, CHR 0xE0, CHR 0xB8, CHR 0xAA,
     CHR 0xE0, CHR 0xB8, CHR 0xA7, CHR 0xE0, CHR 0xB8, CHR 0x99]"

definition balconyLabel :: string where
  "balconyLabel = [CHR 0xF0, CHR 0x9F, CHR 0x8F, CHR 0xA0, CHR 0x20, CHR 0xE0, CHR 0xB8, CHR 0xA3,
     CHR 0xE0, CHR 0xB8, CHR 0xB0, CHR 0xE0, CHR 0xB9, CHR 0x80, CHR 0xE0, CHR 0xB8, CHR 0x9A,
     CHR 0xE0, CHR 0xB8, CHR 0xB5, CHR 0xE0, CHR 0xB8, CHR 0xA2, CHR 0xE0, CHR 0xB8, CHR 0x87]"

definition greenhouseLabel :: string where
  "greenhouseLabel = [CHR 0xF0, CHR 0x9F, CHR 0x8F, CHR 0xA1, CHR 0x20, CHR 0xE0, CHR 0xB9,
     CHR 0x82, CHR 0xE0, CHR 0xB8, CHR 0xA3, CHR 0xE0, CHR 0xB8, CHR 0x87, CHR 0xE0, CHR 0xB9,
     CHR 0x80, CHR 0xE0, CHR 0xB8, CHR 0xA3, CHR 0xE0, CHR 0xB8, CHR 0xB7, CHR 0xE0, CHR 0xB8,
     CHR 0xAD, CHR 0xE0, CHR 0xB8, CHR 0x99]"

definition indoorLabel :: string where
  "indoorLabel = [CHR 0xF0, CHR 0x9F, CHR 0xAA, CHR 0xB4, CHR 0x20, CHR 0xE0, CHR 0xB9, CHR 0x83,
     CHR 0xE0, CHR 0xB8, CHR 0x99, CHR 0xE0, CHR 0xB8, CHR 0xA3, CHR 0xE0, CHR 0xB9, CHR 0x88,
     CHR 0xE0, CHR 0xB8, CHR 0xA1]"

text \<open>The record that \<open>memoryDevices\<close> holds when the process starts at time \<open>boot\<close>.\<close>

definition seedDevice :: "int \<Rightarrow> obj" where
  "seedDevice boot =
     [(''id'', JStr ''device_001''),
      (''name'', JStr seedName),
      (''zone'', JStr ''garden''),
      (''zone_label'', JStr gardenLabel),
      (''ip'', JStr ''192.168.0.110''),
      (''status'', JStr ''online''),
      (''temperature'', JNum 32.5),
      (''humidity'', JNum 65),
      (''soil_moisture'', JNum 78),
      (''pump_active'', JBool False),
      (''mode'', JStr ''auto''),
      (''last_update'', JDate boot)]"

text \<open>The row that \<open>schema.sql\<close> inserts into \<open>devices\<close> at installation time \<open>t\<close>.\<close>

definition seedRow :: "int \<Rightarrow> obj" where
  "seedRow t =
     [(''id'', JStr ''device_001''),
      (''name'', JStr seedName),
      (''zone'', JStr ''garden''),
      (''zone_label'', JStr gardenLabel),
      (''ip'', JStr ''192.168.0.110''),
      (''status'', JStr ''online''),
      (''temperature'', JNum 32.5),
      (''humidity'', JNum 65),
      (''soil_moisture'', JNum 78),
      (''pump_active'', JBool False),
      (''mode'', JStr ''auto''),
      (''owner_id'', JNull),
      (''last_update'', JIso t),
      (''created_at'', JIso t)]"

text \<open>The state after start-up: with the in-memory fallback, and with a configured store.\<close>

definition initMemory :: "int \<Rightarrow> state" where
  "initMemory boot =
     \<lparr> useDatabase = False, dbOnline = False, devicesTable = [], sensorHistoryTable = [],
       sensorHistorySerial = 0, memoryDevices = [seedDevice boot],
       memorySensorHistory = (\<lambda>_. None), deviceLastSeen = (\<lambda>_. None),
       mqttConnected = False, mqttPublished = [], ioEmitted = [] \<rparr>"

definition initDatabase :: "int \<Rightarrow> state" where
  "initDatabase boot =
     \<lparr> useDatabase = True, dbOnline = True, devicesTable = [seedRow boot],
       sensorHistoryTable = [], sensorHistorySerial = 0, memoryDevices = [seedDevice boot],
       memorySensorHistory = (\<lambda>_. None), deviceLastSeen = (\<lambda>_. None),
       mqttConnected = False, mqttPublished = [], ioEmitted = [] \<rparr>"

definition emit :: "string \<Rightarrow> jsval \<Rightarrow> state \<Rightarrow> state" where
  "emit event payload st = st\<lparr>ioEmitted := ioEmitted st @ [(event, payload)]\<rparr>"

definition publish :: "string \<Rightarrow> obj \<Rightarrow> state \<Rightarrow> state" where
  "publish topic payload st =
     (if mqttConnected st then st\<lparr>mqttPublished := mqttPublished st @ [(topic, payload)]\<rparr>
      else st)"

section \<open>The store behind the Supabase client\<close>

text \<open>The text of a string value. Device ids are strings everywhere in the server (the
  seeded \<open>device_001\<close>, \<open>`device_${Date.now()}`\<close>, topic and URL segments).\<close>

fun str :: "jsval \<Rightarrow> string" where
  "str (JStr s) = s"
| "str _ = []"

text \<open>Column defaults of \<open>devices\<close> and \<open>sensor_history\<close> in \<open>schema.sql\<close>; a column
  without a default is NULL.\<close>

definition devicesDefaults :: "int \<Rightarrow> obj" where
  "devicesDefaults now =
     [(''id'', JNull),
      (''name'', JNull),
      (''zone'', JStr ''garden''),
      (''zone_label'', JStr gardenLabel),
      (''ip'', JNull),
      (''status'', JStr ''offline''),
      (''temperature'', JNum 0),
      (''humidity'', JNum 0),
      (''soil_moisture'', JNum 0),
      (''pump_active'', JBool False),
      (''mode'', JStr ''auto''),
      (''owner_id'', JNull),
      (''last_update'', JIso now),
      (''created_at'', JIso now)]"

definition sensorHistoryDefaults :: "nat \<Rightarrow> int \<Rightarrow> obj" where
  "sensorHistoryDefaults serial now =
     [(''id'', JNum (real serial)),
      (''device_id'', JNull),
      (''temperature'', JNull),
      (''humidity'', JNull),
      (''soil_moisture'', JNull),
      (''pump_active'', JBool False),
      (''recorded_at'', JIso now)]"

text \<open>\<open>from('devices').insert(row).select().single()\<close>: the row with the defaults filled
  in, or an error (\<open>None\<close>) when the primary key \<open>id\<close> is NULL or taken, or the
  NOT NULL column \<open>name\<close> is NULL.\<close>

definition insertDeviceRow :: "obj list \<Rightarrow> obj \<Rightarrow> int \<Rightarrow> obj option" where
  "insertDeviceRow rows dbDevice now =
     (let row = assign (devicesDefaults now) (json_body dbDevice)
      in if jget row ''id'' = JNull \<or> jget row ''name'' = JNull
            \<or> (\<exists>r \<in> set rows. jget r ''id'' = jget row ''id'')
         then None else Some row)"

text \<open>\<open>.eq('id', id).single()\<close>: the one matching row; no row, or several, is an error.\<close>

definition singleById :: "obj list \<Rightarrow> string \<Rightarrow> obj option" where
  "singleById rows did =
     (case filter (\<lambda>r. jget r ''id'' = JStr did) rows of [r] \<Rightarrow> Some r | _ \<Rightarrow> None)"

text \<open>\<open>.update(patch).eq('id', id)\<close>: every matching row takes the patch.\<close>

definition updateRows :: "obj list \<Rightarrow> string \<Rightarrow> obj \<Rightarrow> obj list" where
  "updateRows rows did patch =
     map (\<lambda>r. if jget r ''id'' = JStr did then assign r (json_body patch) else r) rows"

text \<open>\<open>ORDER BY\<close> key of a timestamp column.\<close>

definition timeKey :: "string \<Rightarrow> obj \<Rightarrow> int" where
  "timeKey col r = (case dateTime (jget r col) of Some t \<Rightarrow> t | None \<Rightarrow> 0)"

section \<open>Database functions\<close>

definition mapDeviceFromDB :: "obj \<Rightarrow> obj" where
  "mapDeviceFromDB dbDevice =
     [(''id'', jget dbDevice ''id''),
      (''name'', jget dbDevice ''name''),
      (''zone'', jget dbDevice ''zone''),
      (''zoneLabel'', jget dbDevice ''zone_label''),
      (''ip'', jget dbDevice ''ip''),
      (''status'', jget dbDevice ''status''),
      (''temperature'', jget dbDevice ''temperature''),
      (''humidity'', jget dbDevice ''humidity''),
      (''soilMoisture'', jget dbDevice ''soil_moisture''),
      (''pumpActive'', jget dbDevice ''pump_active''),
      (''mode'', jget dbDevice ''mode''),
      (''lastUpdate'', jget dbDevice ''last_update'')]"

definition mapDeviceToDB :: "obj \<Rightarrow> obj" where
  "mapDeviceToDB device =
     [(''id'', jget device ''id''),
      (''name'', jget device ''name''),
      (''zone'', jor (jget device ''zone'') (JStr ''garden'')),
      (''zone_label'', jor (jget device ''zoneLabel'') (JStr gardenLabel)),
      (''ip'', jget device ''ip''),
      (''status'', jor (jget device ''status'') (JStr ''offline'')),
      (''temperature'', jor (jget device ''temperature'') (JNum 0)),
      (''humidity'', jor (jget device ''humidity'') (JNum 0)),
      (''soil_moisture'', jor (jget device ''soilMoisture'') (JNum 0)),
      (''pump_active'', jor (jget device ''pumpActive'') (JBool False)),
      (''mode'', jor (jget device ''mode'') (JStr ''auto''))]"

text \<open>\<open>getDevices\<close>: all devices; on a store error the in-memory list is returned.\<close>

definition getDevices :: "state \<Rightarrow> obj list" where
  "getDevices st =
     (if useDatabase st then
        (if \<not> dbOnline st then memoryDevices st
         else map mapDeviceFromDB (sort_key (timeKey ''created_at'') (devicesTable st)))
      else memoryDevices st)"

text \<open>\<open>getDevice\<close>: \<open>None\<close> stands for \<open>null\<close> (store) and \<open>undefined\<close> (memory), which
  every caller only tests for truthiness.\<close>

definition getDevice :: "state \<Rightarrow> string \<Rightarrow> obj option" where
  "getDevice st did =
     (if useDatabase st then
        (if \<not> dbOnline st then None
         else map_option mapDeviceFromDB (singleById (devicesTable st) did))
      else find (\<lambda>d. jget d ''id'' = JStr did) (memoryDevices st))"

definition createDevice :: "state \<Rightarrow> obj \<Rightarrow> int \<Rightarrow> state \<times> obj option" where
  "createDevice st device now =
     (if useDatabase st then
        (let dbDevice = mapDeviceToDB device
         in case (if dbOnline st then insertDeviceRow (devicesTable st) dbDevice now else None) of
              None \<Rightarrow> (st, None)
            | Some row \<Rightarrow>
                (st\<lparr>devicesTable := devicesTable st @ [row]\<rparr>, Some (mapDeviceFromDB row)))
      else (st\<lparr>memoryDevices := memoryDevices st @ [device]\<rparr>, Some device))"

text \<open>The first element that satisfies \<open>P\<close> is replaced: the effect on the list of
  mutating the object that \<open>find\<close> returned.\<close>

fun replaceFirst :: "('a \<Rightarrow> bool) \<Rightarrow> 'a \<Rightarrow> 'a list \<Rightarrow> 'a list" where
  "replaceFirst P y [] = []"
| "replaceFirst P y (x # xs) = (if P x then y # xs else x # replaceFirst P y xs)"

text \<open>The fields that \<open>updateDevice\<close> copies into \<open>dbUpdates\<close>: six known keys, each only
  when its value is not \<open>undefined\<close>, then \<open>last_update\<close>.\<close>

definition dbUpdatesOf :: "obj \<Rightarrow> int \<Rightarrow> obj" where
  "dbUpdatesOf updates now =
     filter (\<lambda>(k, v). v \<noteq> JUndefined)
       [(''temperature'', jget updates ''temperature''),
        (''humidity'', jget updates ''humidity''),
        (''soil_moisture'', jget updates ''soilMoisture''),
        (''pump_active'', jget updates ''pumpActive''),
        (''status'', jget updates ''status''),
        (''mode'', jget updates ''mode'')]
     @ [(''last_update'', JIso now)]"

definition updateDevice :: "state \<Rightarrow> string \<Rightarrow> obj \<Rightarrow> int \<Rightarrow> state \<times> obj option" where
  "updateDevice st did updates now =
     (if useDatabase st then
        (let dbUpdates = dbUpdatesOf updates now
         in case (if dbOnline st then singleById (devicesTable st) did else None) of
              None \<Rightarrow> (st, None)
            | Some row \<Rightarrow>
                (st\<lparr>devicesTable := updateRows (devicesTable st) did dbUpdates\<rparr>,
                 Some (mapDeviceFromDB (assign row (json_body dbUpdates)))))
      else
        (case find (\<lambda>d. jget d ''id'' = JStr did) (memoryDevices st) of
           None \<Rightarrow> (st, None)
         | Some device \<Rightarrow>
             (let device' = assign (assign device updates) [(''lastUpdate'', JDate now)]
              in (st\<lparr>memoryDevices :=
                       replaceFirst (\<lambda>d. jget d ''id'' = JStr did) device' (memoryDevices st)\<rparr>,
                  Some device'))))"

text \<open>\<open>deleteDevice\<close>: with the store, deleting no row is not an error; the history rows
  of the device go with it (ON DELETE CASCADE). In memory, \<open>splice\<close> removes the first
  record with the id.\<close>

fun removeFirst :: "('a \<Rightarrow> bool) \<Rightarrow> 'a list \<Rightarrow> 'a list" where
  "removeFirst P [] = []"
| "removeFirst P (x # xs) = (if P x then xs else x # removeFirst P xs)"

definition deleteDevice :: "state \<Rightarrow> string \<Rightarrow> state \<times> bool" where
  "deleteDevice st did =
     (if useDatabase st then
        (if \<not> dbOnline st then (st, False)
         else (st\<lparr>devicesTable := filter (\<lambda>r. jget r ''id'' \<noteq> JStr did) (devicesTable st),
                  sensorHistoryTable :=
                    filter (\<lambda>h. jget h ''device_id'' \<noteq> JStr did) (sensorHistoryTable st)\<rparr>,
               True))
      else
        (if \<exists>d \<in> set (memoryDevices st). jget d ''id'' = JStr did
         then (st\<lparr>memoryDevices :=
                    removeFirst (\<lambda>d. jget d ''id'' = JStr did) (memoryDevices st)\<rparr>, True)
         else (st, False)))"

text \<open>\<open>storeSensorHistory\<close>: a store error is logged and nothing else happens (the
  foreign key needs a \<open>devices\<close> row with the id). In memory, a sample is pushed and the
  oldest one is shifted out beyond 720.\<close>

definition storeSensorHistory :: "state \<Rightarrow> string \<Rightarrow> jsval \<Rightarrow> int \<Rightarrow> state" where
  "storeSensorHistory st deviceId data now =
     (if useDatabase st then
        (if \<not> dbOnline st then st
         else
           (let serial = Suc (sensorHistorySerial st);
                row = assign (sensorHistoryDefaults serial now)
                        (json_body
                          [(''device_id'', JStr deviceId),
                           (''temperature'', readProp data ''temperature''),
                           (''humidity'', readProp data ''humidity''),
                           (''soil_moisture'', readProp data ''soilPercent''),
                           (''pump_active'', readProp data ''pumpActive'')])
            in if \<exists>r \<in> set (devicesTable st). jget r ''id'' = JStr deviceId
               then st\<lparr>sensorHistoryTable := sensorHistoryTable st @ [row],
                       sensorHistorySerial := serial\<rparr>
               else st\<lparr>sensorHistorySerial := serial\<rparr>))
      else
        (let history = (case memorySensorHistory st deviceId of None \<Rightarrow> [] | Some h \<Rightarrow> h);
             pushed = history @
                        [[(''timestamp'', JDate now),
                          (''temperature'', readProp data ''temperature''),
                          (''humidity'', readProp data ''humidity''),
                          (''soilMoisture'', readProp data ''soilPercent'')]];
             kept = (if length pushed > 720 then tl pushed else pushed)
         in st\<lparr>memorySensorHistory := (memorySensorHistory st)(deviceId \<mapsto> kept)\<rparr>))"

text \<open>\<open>getSensorHistory\<close>. The options are the limit (\<open>None\<close> is NaN, what \<open>parseInt\<close>
  gives for text that is not a number) and the two bounds, which are used when truthy.
  The route always passes a limit (\<open>limit ? parseInt(limit) : 1000\<close>), so the default of
  the parameter is never used. The store refuses a limit that is not a natural number
  and a bound that is not a timestamp; on any store error the result is empty.\<close>

record historyOptions =
  limit :: "int option"
  startDate :: jsval
  endDate :: jsval

definition historyFromDB :: "obj \<Rightarrow> obj" where
  "historyFromDB h =
     [(''timestamp'', jget h ''recorded_at''),
      (''temperature'', jget h ''temperature''),
      (''humidity'', jget h ''humidity''),
      (''soilMoisture'', jget h ''soil_moisture'')]"

definition boundOk :: "jsval \<Rightarrow> bool" where
  "boundOk b = (\<not> truthy b \<or> dateTime b \<noteq> None)"

definition getSensorHistory :: "state \<Rightarrow> string \<Rightarrow> historyOptions \<Rightarrow> obj list" where
  "getSensorHistory st deviceId options =
     (if useDatabase st then
        (case limit options of
           None \<Rightarrow> []
         | Some n \<Rightarrow>
             if \<not> dbOnline st \<or> n < 0 \<or> \<not> boundOk (startDate options)
                \<or> \<not> boundOk (endDate options)
             then []
             else
               (let q0 = rev (sort_key (timeKey ''recorded_at'')
                               (filter (\<lambda>h. jget h ''device_id'' = JStr deviceId)
                                  (sensorHistoryTable st)));
                    q1 = (if truthy (startDate options)
                          then filter (\<lambda>h. the (dateTime (startDate options))
                                             \<le> timeKey ''recorded_at'' h) q0
                          else q0);
                    q2 = (if truthy (endDate options)
                          then filter (\<lambda>h. timeKey ''recorded_at'' h
                                             \<le> the (dateTime (endDate options))) q1
                          else q1);
                    data = take (nat n) q2
                in rev (map historyFromDB data)))
      else
        (let history = (case memorySensorHistory st deviceId of None \<Rightarrow> [] | Some h \<Rightarrow> h);
             history' =
               (if truthy (startDate options) \<or> truthy (endDate options)
                then filter (\<lambda>h.
                       let ts = dateTime (jget h ''timestamp'')
                       in \<not> (truthy (startDate options)
                             \<and> (case (ts, dateTime (startDate options)) of
                                   (Some a, Some b) \<Rightarrow> a < b | _ \<Rightarrow> False))
                          \<and> \<not> (truthy (endDate options)
                                \<and> (case (ts, dateTime (endDate options)) of
                                      (Some a, Some b) \<Rightarrow> a > b | _ \<Rightarrow> False))) history
                else history)
         in slice_from history' (map_option uminus (limit options))))"

section \<open>Offline detection\<close>

text \<open>
  The callback that \<open>checkOfflineDevices\<close> runs on every element of \<open>memoryDevices\<close>.
  \<open>lastSeen && ...\<close> is false for a missing entry and for the number 0. The record is
  mutated in place, the store (when configured) is asked to update the rows with the
  record's id, and the copy \<open>{...device, status: 'offline'}\<close> is broadcast.
\<close>

definition checkOne :: "int \<Rightarrow> state \<Rightarrow> obj \<Rightarrow> obj \<times> state" where
  "checkOne now st device =
     (let lastSeen = deviceLastSeen st (str (jget device ''id''))
      in if (case lastSeen of None \<Rightarrow> False
             | Some t \<Rightarrow> t \<noteq> 0 \<and> now - t > OFFLINE_TIMEOUT)
         then
           (if jget device ''status'' \<noteq> JStr ''offline''
            then
              (let device' = jset device ''status'' (JStr ''offline'');
                   st1 = (if useDatabase st \<and> dbOnline st
                          then st\<lparr>devicesTable :=
                                    updateRows (devicesTable st) (str (jget device' ''id''))
                                      [(''status'', JStr ''offline''),
                                       (''last_update'', JIso now)]\<rparr>
                          else st);
                   st2 = emit ''deviceUpdate''
                           (JObj (jset device' ''status'' (JStr ''offline''))) st1
               in (device', st2))
            else (device, st))
         else (device, st))"

text \<open>The two tests of the callback together, for the proofs: the device was seen, its
  last message is older than the timeout, and its record is not yet offline.\<close>

definition offlineDue :: "(string \<Rightarrow> int option) \<Rightarrow> int \<Rightarrow> obj \<Rightarrow> bool" where
  "offlineDue seen now device =
     ((case seen (str (jget device ''id'')) of
         None \<Rightarrow> False
       | Some t \<Rightarrow> t \<noteq> 0 \<and> now - t > OFFLINE_TIMEOUT)
      \<and> jget device ''status'' \<noteq> JStr ''offline'')"

fun forEachDevice :: "int \<Rightarrow> obj list \<Rightarrow> state \<Rightarrow> obj list \<times> state" where
  "forEachDevice now [] st = ([], st)"
| "forEachDevice now (device # rest) st =
     (let (device', st1) = checkOne now st device;
          (rest', st2) = forEachDevice now rest st1
      in (device' # rest', st2))"

definition checkOfflineDevices :: "state \<Rightarrow> int \<Rightarrow> state" where
  "checkOfflineDevices st now =
     (let (devices, st') = forEachDevice now (memoryDevices st) st
      in st'\<lparr>memoryDevices := devices\<rparr>)"

text \<open>The timer: one sweep at each of the given clock readings, in order.\<close>

fun sweeps :: "state \<Rightarrow> int list \<Rightarrow> state" where
  "sweeps st [] = st"
| "sweeps st (now # later) = sweeps (checkOfflineDevices st now) later"

section \<open>Message handlers\<close>

datatype exn = TypeError

text \<open>
  \<open>handleDeviceData\<close> and \<open>handleDeviceStatus\<close> return the state they leave behind and
  the exception they throw, if any: reading a property of \<open>null\<close> or \<open>undefined\<close>
  throws after \<open>deviceLastSeen\<close> has been written.
\<close>

text \<open>The object \<open>updates\<close> that \<open>handleDeviceData\<close> builds from the payload.\<close>

definition telemetryUpdates :: "jsval \<Rightarrow> obj" where
  "telemetryUpdates data =
     [(''temperature'', readProp data ''temperature''),
      (''humidity'', readProp data ''humidity''),
      (''soilMoisture'', readProp data ''soilPercent''),
      (''pumpActive'', jor (readProp data ''pumpActive'') (JBool False)),
      (''status'', JStr (if truthy (readProp data ''pumpActive'') then ''watering'' else ''online''))]"

definition handleDeviceData :: "state \<Rightarrow> string \<Rightarrow> jsval \<Rightarrow> int \<Rightarrow> state \<times> exn option" where
  "handleDeviceData st deviceId data now =
     (let st0 = st\<lparr>deviceLastSeen := (deviceLastSeen st)(deviceId \<mapsto> now)\<rparr>
      in if data = JNull \<or> data = JUndefined then (st0, Some TypeError)
         else
           (let updates = telemetryUpdates data;
                (st1, device) = updateDevice st0 deviceId updates now
            in case device of
                 None \<Rightarrow> (st1, None)
               | Some d \<Rightarrow>
                   (emit ''deviceUpdate'' (JObj d) (storeSensorHistory st1 deviceId data now),
                    None)))"

definition handleDeviceStatus :: "state \<Rightarrow> string \<Rightarrow> jsval \<Rightarrow> int \<Rightarrow> state \<times> exn option" where
  "handleDeviceStatus st deviceId data now =
     (if data = JNull \<or> data = JUndefined then (st, Some TypeError)
      else
        (let (st1, device) = updateDevice st deviceId [(''status'', readProp data ''status'')] now
         in case device of
              None \<Rightarrow> (st1, None)
            | Some d \<Rightarrow> (emit ''deviceUpdate'' (JObj d) st1, None)))"

text \<open>
  The MQTT \<open>message\<close> callback for a topic \<open>smartfarm/<deviceId>/<messageType>\<close>.
  \<open>payload\<close> is what \<open>JSON.parse\<close> returns, \<open>None\<close> when it throws. The
  \<open>try/catch\<close> logs every exception and returns.
\<close>

definition mqttMessage :: "state \<Rightarrow> string \<Rightarrow> string \<Rightarrow> jsval option \<Rightarrow> int \<Rightarrow> state" where
  "mqttMessage st deviceId messageType payload now =
     (case payload of
        None \<Rightarrow> st
      | Some data \<Rightarrow>
          if messageType = ''data'' then fst (handleDeviceData st deviceId data now)
          else if messageType = ''status'' then fst (handleDeviceStatus st deviceId data now)
          else st)"

section \<open>Routes and socket events\<close>

text \<open>
  An HTTP response is its status code and the \<open>success\<close>, \<open>error\<close> and \<open>data\<close> fields
  of its JSON body (the \<open>message\<close> text is left out). \<open>req.body\<close> is the object that
  \<open>express.json()\<close> leaves there. \<open>orNull\<close> is the value of a variable that holds a
  device or \<open>null\<close>.
\<close>

datatype response = Response nat obj

definition notFound :: response where
  "notFound = Response 404 [(''success'', JBool False), (''error'', JStr ''Device not found'')]"

definition orNull :: "obj option \<Rightarrow> jsval" where
  "orNull d = (case d of None \<Rightarrow> JNull | Some ob \<Rightarrow> JObj ob)"

definition commandTopic :: "jsval \<Rightarrow> string" where
  "commandTopic deviceId = MQTT_TOPIC_PREFIX @ ''/'' @ str deviceId @ ''/command''"

definition zoneLabels :: "jsval \<Rightarrow> jsval" where
  "zoneLabels zone =
     (if zone = JStr ''garden'' then JStr gardenLabel
      else if zone = JStr ''balcony'' then JStr balconyLabel
      else if zone = JStr ''greenhouse'' then JStr greenhouseLabel
      else if zone = JStr ''indoor'' then JStr indoorLabel
      else JUndefined)"

text \<open>The patch of a pump command, the same in the route and in the socket handler.\<close>

definition pumpUpdates :: "bool \<Rightarrow> obj" where
  "pumpUpdates turnOn =
     [(''pumpActive'', JBool turnOn),
      (''status'', JStr (if turnOn then ''watering'' else ''online''))]"

definition postDevices :: "state \<Rightarrow> obj \<Rightarrow> int \<Rightarrow> state \<times> response" where
  "postDevices st body now =
     (let name = jget body ''name''; zone = jget body ''zone''; ip = jget body ''ip''
      in if \<not> truthy name \<or> \<not> truthy ip
         then (st, Response 400 [(''success'', JBool False),
                                 (''error'', JStr ''Name and IP are required'')])
         else
           (let newDevice =
                  [(''id'', JStr (''device_'' @ decimal now)),
                   (''name'', name),
                   (''zone'', jor zone (JStr ''garden'')),
                   (''zoneLabel'', jor (zoneLabels zone) (JStr gardenLabel)),
                   (''ip'', ip),
                   (''status'', JStr ''offline''),
                   (''temperature'', JNum 0),
                   (''humidity'', JNum 0),
                   (''soilMoisture'', JNum 0),
                   (''pumpActive'', JBool False),
                   (''mode'', JStr ''auto'')];
                (st1, created) = createDevice st newDevice now
            in case created of
                 None \<Rightarrow> (st1, Response 500 [(''success'', JBool False),
                                             (''error'', JStr ''Failed to create device'')])
               | Some c \<Rightarrow>
                   (emit ''deviceAdded'' (JObj c) st1,
                    Response 201 [(''success'', JBool True), (''data'', JObj c)])))"

definition postPump :: "state \<Rightarrow> string \<Rightarrow> obj \<Rightarrow> int \<Rightarrow> state \<times> response" where
  "postPump st did body now =
     (let action = jget body ''action''
      in case getDevice st did of
           None \<Rightarrow> (st, notFound)
         | Some device \<Rightarrow>
             (let turnOn = (action = JStr ''on'');
                  st1 = publish (commandTopic (jget device ''id'')) [(''pump'', JBool turnOn)] st;
                  (st2, updated) = updateDevice st1 did (pumpUpdates turnOn) now;
                  st3 = emit ''deviceUpdate'' (orNull updated) st2
              in (st3, Response 200 [(''success'', JBool True), (''data'', orNull updated)])))"

definition postMode :: "state \<Rightarrow> string \<Rightarrow> obj \<Rightarrow> int \<Rightarrow> state \<times> response" where
  "postMode st did body now =
     (let mode = jget body ''mode''
      in case getDevice st did of
           None \<Rightarrow> (st, notFound)
         | Some device \<Rightarrow>
             (let st1 = publish (commandTopic (jget device ''id'')) (json_body [(''mode'', mode)]) st;
                  (st2, updated) = updateDevice st1 did [(''mode'', mode)] now;
                  st3 = emit ''deviceUpdate'' (orNull updated) st2
              in (st3, Response 200 [(''success'', JBool True), (''data'', orNull updated)])))"

definition postData :: "state \<Rightarrow> string \<Rightarrow> obj \<Rightarrow> int \<Rightarrow> state \<times> response" where
  "postData st did body now =
     (fst (handleDeviceData st did (JObj body) now), Response 200 [(''success'', JBool True)])"

text \<open>The socket event \<open>pumpControl\<close> with the argument \<open>{deviceId, action}\<close>. The handler
  has no acknowledgement callback: nothing is sent back to the socket.\<close>

definition pumpControl :: "state \<Rightarrow> string \<Rightarrow> jsval \<Rightarrow> int \<Rightarrow> state" where
  "pumpControl st deviceId action now =
     (let turnOn = (action = JStr ''on'');
          st1 = publish (commandTopic (JStr deviceId)) [(''pump'', JBool turnOn)] st;
          (st2, updated) = updateDevice st1 deviceId (pumpUpdates turnOn) now
      in case updated of
           None \<Rightarrow> st2
         | Some u \<Rightarrow> emit ''deviceUpdate'' (JObj u) st2)"

section \<open>Notions used in the statements\<close>

text \<open>The record after \<open>device.status = 'offline'\<close>, and the test whether a broadcast
  carries the id of a given device in its payload.\<close>

definition markOffline :: "obj \<Rightarrow> obj" where
  "markOffline device = jset device ''status'' (JStr ''offline'')"

definition aboutDevice :: "string \<Rightarrow> string \<times> jsval \<Rightarrow> bool" where
  "aboutDevice did ev = (readProp (snd ev) ''id'' = JStr did)"




text \<open>The core operations as events with their clock readings, and a run of the server
  over a list of them. \<open>keyColumn k\<close> lists what the records of \<open>memoryDevices\<close> hold
  under the key \<open>k\<close>.\<close>

datatype coreOp =
    Telemetry string "jsval option"
  | StatusMessage string "jsval option"
  | DataRoute string obj
  | PumpRoute string obj
  | ModeRoute string obj
  | PumpEvent string jsval
  | Sweep

fun step :: "state \<Rightarrow> coreOp \<times> int \<Rightarrow> state" where
  "step st (Telemetry did payload, now) = mqttMessage st did ''data'' payload now"
| "step st (StatusMessage did payload, now) = mqttMessage st did ''status'' payload now"
| "step st (DataRoute did body, now) = fst (postData st did body now)"
| "step st (PumpRoute did body, now) = fst (postPump st did body now)"
| "step st (ModeRoute did body, now) = fst (postMode st did body now)"
| "step st (PumpEvent did action, now) = pumpControl st did action now"
| "step st (Sweep, now) = checkOfflineDevices st now"

definition run :: "state \<Rightarrow> (coreOp \<times> int) list \<Rightarrow> state" where
  "run st ops = foldl step st ops"

definition keyColumn :: "string \<Rightarrow> state \<Rightarrow> jsval list" where
  "keyColumn k st = map (\<lambda>d. jget d k) (memoryDevices st)"

text \<open>The keys of the seeded record that are spelled in snake case and have a camel-case
  counterpart in the patches and in the devices created by the route.\<close>

definition snakeKey :: "string \<Rightarrow> bool" where
  "snakeKey k = (k \<in> {''soil_moisture'', ''pump_active'', ''last_update'', ''zone_label''})"


section \<open>Basic facts about objects and lists\<close>

lemma jget_jset: "jget (jset ob k v) k' = (if k' = k then v else jget ob k')"
  by (induction ob) (auto simp: jget_def)

lemma assign_Nil: "assign t [] = t"
  by (simp add: assign_def)

lemma assign_snoc: "assign t (src @ [(k, v)]) = jset (assign t src) k v"
  by (simp add: assign_def)

lemma assign_Cons: "assign t ((k, v) # src) = assign (jset t k v) src"
  by (simp add: assign_def)

lemma jget_assign_other: "k \<notin> fst ` set src \<Longrightarrow> jget (assign t src) k = jget t k"
proof (induction src rule: rev_induct)
  case Nil
  then show ?case by (simp add: assign_Nil)
next
  case (snoc kv src)
  obtain k' v where kv: "kv = (k', v)" by (cases kv)
  from snoc.prems kv have "k \<noteq> k'" and "k \<notin> fst ` set src" by auto
  with snoc.IH kv show ?case by (simp add: assign_snoc jget_jset)
qed

lemma find_replaceFirst_same:
  "find P xs = Some x \<Longrightarrow> P y \<Longrightarrow> find P (replaceFirst P y xs) = Some y"
  by (induction xs) (auto split: if_splits)

lemma find_replaceFirst_other:
  "find P xs = Some x \<Longrightarrow> \<not> Q x \<Longrightarrow> \<not> Q y \<Longrightarrow> find Q (replaceFirst P y xs) = find Q xs"
  by (induction xs) (auto split: if_splits)

lemma find_Some_sat: "find P xs = Some x \<Longrightarrow> P x"
  by (induction xs) (auto split: if_splits)

lemma singleById_Some:
  "singleById rows did = Some r \<Longrightarrow> filter (\<lambda>r. jget r ''id'' = JStr did) rows = [r]"
  by (auto simp: singleById_def split: list.splits)

lemma singleById_id: "singleById rows did = Some r \<Longrightarrow> jget r ''id'' = JStr did"
proof -
  assume "singleById rows did = Some r"
  then have "filter (\<lambda>r. jget r ''id'' = JStr did) rows = [r]" by (rule singleById_Some)
  then have "r \<in> set (filter (\<lambda>r. jget r ''id'' = JStr did) rows)" by simp
  then show ?thesis by simp
qed

lemma keys_json_body: "fst ` set (json_body ob) \<subseteq> fst ` set ob"
  by (force simp: json_body_def)

lemma filter_id_updateRows:
  assumes "''id'' \<notin> fst ` set patch"
  shows "filter (\<lambda>r. jget r ''id'' = JStr other) (updateRows rows did patch)
         = map (\<lambda>r. if jget r ''id'' = JStr did then assign r (json_body patch) else r)
             (filter (\<lambda>r. jget r ''id'' = JStr other) rows)"
proof -
  have k: "''id'' \<notin> fst ` set (json_body patch)" using assms keys_json_body by blast
  have eq: "\<And>r. jget (assign r (json_body patch)) ''id'' = jget r ''id''"
    using k by (rule jget_assign_other)
  show ?thesis
    unfolding updateRows_def by (induction rows) (simp_all add: eq)
qed

lemma jget_assign:
  "distinct (map fst src) \<Longrightarrow>
   jget (assign t src) k = (case map_of src k of None \<Rightarrow> jget t k | Some v \<Rightarrow> v)"
proof (induction src arbitrary: t)
  case Nil
  then show ?case by (simp add: assign_Nil)
next
  case (Cons kv src)
  obtain k' v' where kv: "kv = (k', v')" by (cases kv)
  from Cons.prems kv have d: "distinct (map fst src)" and n: "k' \<notin> fst ` set src" by auto
  have "map_of src k' = None" using n by (simp add: map_of_eq_None_iff)
  then show ?case
    using Cons.IH [OF d, of "jset t k' v'"] kv
    by (auto simp: assign_Cons jget_jset split: option.splits)
qed

lemma distinct_json_body: "distinct (map fst ob) \<Longrightarrow> distinct (map fst (json_body ob))"
proof -
  assume d: "distinct (map fst ob)"
  have "map fst (json_body ob) = map fst (filter (\<lambda>(k, v). v \<noteq> JUndefined) ob)"
    by (simp add: json_body_def case_prod_unfold)
  moreover have "distinct (map fst (filter (\<lambda>(k, v). v \<noteq> JUndefined) ob))"
    using d by (rule distinct_map_filter)
  ultimately show ?thesis by simp
qed

lemma map_of_json_body:
  "distinct (map fst ob) \<Longrightarrow>
   map_of (json_body ob) k =
     (case map_of ob k of
        None \<Rightarrow> None
      | Some v \<Rightarrow> if v = JUndefined then None else Some (json_value v))"
proof (induction ob)
  case Nil
  then show ?case by (simp add: json_body_def)
next
  case (Cons kv ob)
  obtain k' v' where kv: "kv = (k', v')" by (cases kv)
  from Cons.prems kv have d: "distinct (map fst ob)" and n: "k' \<notin> fst ` set ob" by auto
  have none: "map_of ob k' = None" using n by (simp add: map_of_eq_None_iff)
  have step: "json_body ((k', v') # ob) =
              (if v' = JUndefined then json_body ob else (k', json_value v') # json_body ob)"
    by (simp add: json_body_def)
  show ?case unfolding kv using Cons.IH [OF d] none by (auto simp: step)
qed

lemma jget_assign_json:
  "distinct (map fst ob) \<Longrightarrow>
   jget (assign t (json_body ob)) k =
     (case map_of ob k of
        None \<Rightarrow> jget t k
      | Some v \<Rightarrow> if v = JUndefined then jget t k else json_value v)"
  by (simp add: jget_assign distinct_json_body map_of_json_body split: option.splits)


section \<open>Creating a device whose id is taken\<close>

lemma createDevice_memory:
  "\<not> useDatabase st \<Longrightarrow>
   createDevice st device now = (st\<lparr>memoryDevices := memoryDevices st @ [device]\<rparr>, Some device)"
  by (simp add: createDevice_def)

lemma distinct_mapDeviceToDB: "distinct (map fst (mapDeviceToDB device))"
  by (simp add: mapDeviceToDB_def)

text \<open>With the store, the primary key of \<open>devices\<close> refuses a taken id: \<open>createDevice\<close>
  returns \<open>null\<close> and nothing is stored.\<close>

lemma createDevice_store_duplicate:
  assumes "useDatabase st" and "jget device ''id'' = JStr did"
    and "\<exists>r \<in> set (devicesTable st). jget r ''id'' = JStr did"
  shows "createDevice st device now = (st, None)"
proof -
  have "map_of (mapDeviceToDB device) ''id'' = Some (JStr did)"
    using assms(2) by (simp add: mapDeviceToDB_def)
  then have "jget (assign (devicesDefaults now) (json_body (mapDeviceToDB device))) ''id'' = JStr did"
    by (simp add: jget_assign_json distinct_mapDeviceToDB)
  then have "insertDeviceRow (devicesTable st) (mapDeviceToDB device) now = None"
    using assms(3) by (simp add: insertDeviceRow_def Let_def)
  then show ?thesis using assms(1) by (simp add: createDevice_def)
qed

text \<open>Two \<open>POST /api/devices\<close> requests handled in the same millisecond, in memory: both
  are answered with 201 and both records are stored under one id.\<close>

lemma postDevices_same_millisecond:
  "(let body = [(''name'', JStr ''bed''), (''ip'', JStr ''10.0.0.7'')];
        (st1, r1) = postDevices (initMemory 0) body 1700000000000;
        (st2, r2) = postDevices st1 body 1700000000000
    in map (\<lambda>d. jget d ''id'') (memoryDevices st1)
         = [JStr ''device_001'', JStr ''device_1700000000000'']
       \<and> (case r2 of Response code b \<Rightarrow> code = 201 \<and> jget b ''success'' = JBool True)
       \<and> map (\<lambda>d. jget d ''id'') (memoryDevices st2)
         = [JStr ''device_001'', JStr ''device_1700000000000'', JStr ''device_1700000000000''])"
  by code_simp

text \<open>
  Claim C7: a create whose id already exists fails with DuplicateId and leaves the
  Registry unchanged, so that no second record with that id is ever stored. The
  in-memory branch of \<open>createDevice\<close> does not do this: whenever the id of the new
  device is already registered, the call succeeds, returns the device, and the Registry
  then holds at least two records with that id.
\<close>

theorem createDevice_memory_stores_duplicate:
  assumes "\<not> useDatabase st"
    and "getDevice st did = Some d"
    and "jget device ''id'' = JStr did"
  shows "\<exists>st'. createDevice st device now = (st', Some device)
           \<and> memoryDevices st' = memoryDevices st @ [device]
           \<and> 2 \<le> length (filter (\<lambda>x. jget x ''id'' = JStr did) (memoryDevices st'))"
proof -
  from assms(1,2) have "find (\<lambda>x. jget x ''id'' = JStr did) (memoryDevices st) = Some d"
    by (simp add: getDevice_def)
  then have "d \<in> set (memoryDevices st)" and "jget d ''id'' = JStr did"
    by (auto simp: find_Some_iff)
  then have "d \<in> set (filter (\<lambda>x. jget x ''id'' = JStr did) (memoryDevices st))"
    by simp
  then have "1 \<le> length (filter (\<lambda>x. jget x ''id'' = JStr did) (memoryDevices st))"
    by (cases "filter (\<lambda>x. jget x ''id'' = JStr did) (memoryDevices st)") auto
  then show ?thesis
    using assms(1,3) by (simp add: createDevice_memory)
qed

theorem createDevice_memory_stores_duplicate_witness:
  "\<exists>st'. createDevice
           (fst (postDevices (initMemory 0) [(''name'', JStr ''bed''), (''ip'', JStr ''10.0.0.7'')]
                   1700000000000))
           [(''id'', JStr ''device_1700000000000''), (''name'', JStr ''bed'')] 1700000000000
         = (st', Some [(''id'', JStr ''device_1700000000000''), (''name'', JStr ''bed'')])
       \<and> memoryDevices st'
         = memoryDevices
             (fst (postDevices (initMemory 0) [(''name'', JStr ''bed''), (''ip'', JStr ''10.0.0.7'')]
                     1700000000000))
           @ [[(''id'', JStr ''device_1700000000000''), (''name'', JStr ''bed'')]]
       \<and> 2 \<le> length (filter (\<lambda>x. jget x ''id'' = JStr ''device_1700000000000'')
                          (memoryDevices st'))"
proof -
  let ?st = "fst (postDevices (initMemory 0) [(''name'', JStr ''bed''), (''ip'', JStr ''10.0.0.7'')]
                    1700000000000)"
  have a: "\<not> useDatabase ?st" by code_simp
  have b: "getDevice ?st ''device_1700000000000'' \<noteq> None" by code_simp
  then obtain d where d: "getDevice ?st ''device_1700000000000'' = Some d" by blast
  have c: "jget [(''id'', JStr ''device_1700000000000''), (''name'', JStr ''bed'')] ''id''
           = JStr ''device_1700000000000''" by code_simp
  show ?thesis by (rule createDevice_memory_stores_duplicate [OF a d c])
qed

section \<open>Sensor history queries\<close>

lemma set_slice_from: "set (slice_from xs s) \<subseteq> set xs"
  by (auto simp: slice_from_def split: option.splits dest: in_set_dropD)

lemma length_slice_last: "0 < n \<Longrightarrow> length (slice_from xs (Some (- n))) \<le> nat n"
  by (auto simp: slice_from_def)

lemma slice_from_zero: "slice_from xs (Some 0) = xs"
  by (simp add: slice_from_def)

text \<open>In memory, a positive limit caps the result, and both bounds are respected.\<close>

lemma getSensorHistory_memory_capped:
  "\<not> useDatabase st \<Longrightarrow> limit options = Some n \<Longrightarrow> 0 < n \<Longrightarrow>
   length (getSensorHistory st did options) \<le> nat n"
  by (simp add: getSensorHistory_def Let_def length_slice_last)

lemma getSensorHistory_memory_window:
  assumes "\<not> useDatabase st" and "startDate options = JIso a" and "endDate options = JIso b"
    and "h \<in> set (getSensorHistory st did options)" and "jget h ''timestamp'' = JDate t"
  shows "a \<le> t \<and> t \<le> b"
proof -
  let ?history = "case memorySensorHistory st did of None \<Rightarrow> [] | Some h \<Rightarrow> h"
  let ?keep = "\<lambda>h. let ts = dateTime (jget h ''timestamp'')
                   in \<not> (truthy (startDate options)
                          \<and> (case (ts, dateTime (startDate options)) of
                                (Some a, Some b) \<Rightarrow> a < b | _ \<Rightarrow> False))
                      \<and> \<not> (truthy (endDate options)
                            \<and> (case (ts, dateTime (endDate options)) of
                                  (Some a, Some b) \<Rightarrow> a > b | _ \<Rightarrow> False))"
  have "getSensorHistory st did options
        = slice_from (filter ?keep ?history) (map_option uminus (limit options))"
    using assms(1,2) by (simp add: getSensorHistory_def Let_def)
  with assms(4) have "h \<in> set (filter ?keep ?history)"
    using set_slice_from by fastforce
  then have "?keep h" by simp
  then show ?thesis using assms(2,3,5) by (simp add: Let_def)
qed

text \<open>With the store, the limit caps the result also when it is 0.\<close>

lemma getSensorHistory_store_capped:
  "useDatabase st \<Longrightarrow> limit options = Some n \<Longrightarrow>
   length (getSensorHistory st did options) \<le> nat n"
  by (simp add: getSensorHistory_def Let_def)

text \<open>
  Claim C8: a history query with a time window and a limit returns at most \<open>limit\<close>
  samples. In memory the cap is \<open>history.slice(-limit)\<close>, and \<open>slice(-0)\<close> is
  \<open>slice(0)\<close>: with limit 0 every sample of the window is returned.
\<close>

theorem getSensorHistory_memory_limit_zero:
  assumes "\<not> useDatabase st"
    and "limit options = Some 0"
    and "startDate options = JIso a" and "endDate options = JIso b"
    and "memorySensorHistory st did = Some history"
    and "\<forall>h \<in> set history. \<exists>t. jget h ''timestamp'' = JDate t \<and> a \<le> t \<and> t \<le> b"
  shows "getSensorHistory st did options = history"
proof -
  let ?keep = "\<lambda>h. let ts = dateTime (jget h ''timestamp'')
                   in \<not> (truthy (startDate options)
                          \<and> (case (ts, dateTime (startDate options)) of
                                (Some a, Some b) \<Rightarrow> a < b | _ \<Rightarrow> False))
                      \<and> \<not> (truthy (endDate options)
                            \<and> (case (ts, dateTime (endDate options)) of
                                  (Some a, Some b) \<Rightarrow> a > b | _ \<Rightarrow> False))"
  have "\<forall>h \<in> set history. ?keep h"
    using assms(3,4,6) by (auto simp: Let_def)
  then have "filter ?keep history = history"
    by (simp add: filter_id_conv)
  then show ?thesis
    using assms(1,2,3,5) by (simp add: getSensorHistory_def Let_def slice_from_zero)
qed

theorem getSensorHistory_memory_limit_zero_witness:
  "length (getSensorHistory
     (fst (handleDeviceData
        (fst (handleDeviceData (initMemory 0) ''device_001''
           (JObj [(''temperature'', JNum 30), (''humidity'', JNum 60), (''soilPercent'', JNum 50)])
           1000))
        ''device_001''
        (JObj [(''temperature'', JNum 31), (''humidity'', JNum 61), (''soilPercent'', JNum 49)])
        2000))
     ''device_001'' \<lparr>limit = Some 0, startDate = JIso 500, endDate = JIso 2500\<rparr>) = 2"
proof -
  let ?st = "fst (handleDeviceData
        (fst (handleDeviceData (initMemory 0) ''device_001''
           (JObj [(''temperature'', JNum 30), (''humidity'', JNum 60), (''soilPercent'', JNum 50)])
           1000))
        ''device_001''
        (JObj [(''temperature'', JNum 31), (''humidity'', JNum 61), (''soilPercent'', JNum 49)])
        2000)"
  let ?history = "[[(''timestamp'', JDate 1000), (''temperature'', JNum 30),
                    (''humidity'', JNum 60), (''soilMoisture'', JNum 50)],
                   [(''timestamp'', JDate 2000), (''temperature'', JNum 31),
                    (''humidity'', JNum 61), (''soilMoisture'', JNum 49)]]"
  let ?options = "\<lparr>limit = Some 0, startDate = JIso 500, endDate = JIso 2500\<rparr>"
  have a: "\<not> useDatabase ?st" by code_simp
  have b: "limit ?options = Some 0" by simp
  have c: "startDate ?options = JIso 500" by simp
  have d: "endDate ?options = JIso 2500" by simp
  have e: "memorySensorHistory ?st ''device_001'' = Some ?history" by code_simp
  have f: "\<forall>h \<in> set ?history. \<exists>t. jget h ''timestamp'' = JDate t \<and> 500 \<le> t \<and> t \<le> 2500"
    by (simp add: jget_def)
  show ?thesis
    using getSensorHistory_memory_limit_zero [OF a b c d e f] by simp
qed

section \<open>The liveness sweep\<close>

lemma jset_idem: "jset (jset ob k v) k v = jset ob k v"
  by (induction ob) auto

lemma checkOne_due:
  "offlineDue (deviceLastSeen st) now device \<Longrightarrow>
   checkOne now st device =
     (markOffline device,
      emit ''deviceUpdate'' (JObj (markOffline device))
        (if useDatabase st \<and> dbOnline st
         then st\<lparr>devicesTable :=
                   updateRows (devicesTable st) (str (jget device ''id''))
                     [(''status'', JStr ''offline''), (''last_update'', JIso now)]\<rparr>
         else st))"
  by (auto simp: checkOne_def offlineDue_def markOffline_def Let_def jset_idem jget_jset
           split: option.splits)

lemma checkOne_not_due:
  "\<not> offlineDue (deviceLastSeen st) now device \<Longrightarrow> checkOne now st device = (device, st)"
  by (auto simp: checkOne_def offlineDue_def Let_def split: option.splits)

lemma checkOne_fields:
  "deviceLastSeen (snd (checkOne now st device)) = deviceLastSeen st"
  "useDatabase (snd (checkOne now st device)) = useDatabase st"
  "dbOnline (snd (checkOne now st device)) = dbOnline st"
  "memorySensorHistory (snd (checkOne now st device)) = memorySensorHistory st"
  "sensorHistoryTable (snd (checkOne now st device)) = sensorHistoryTable st"
  "mqttPublished (snd (checkOne now st device)) = mqttPublished st"
  by (cases "offlineDue (deviceLastSeen st) now device";
      simp add: checkOne_due checkOne_not_due emit_def)+

lemma forEachDevice_fields:
  "deviceLastSeen (snd (forEachDevice now ds st)) = deviceLastSeen st
   \<and> useDatabase (snd (forEachDevice now ds st)) = useDatabase st
   \<and> dbOnline (snd (forEachDevice now ds st)) = dbOnline st
   \<and> memorySensorHistory (snd (forEachDevice now ds st)) = memorySensorHistory st
   \<and> sensorHistoryTable (snd (forEachDevice now ds st)) = sensorHistoryTable st
   \<and> mqttPublished (snd (forEachDevice now ds st)) = mqttPublished st"
proof (induction ds arbitrary: st)
  case Nil
  then show ?case by simp
next
  case (Cons d ds)
  show ?case
    using Cons.IH [of "snd (checkOne now st d)"]
    by (simp add: split_def Let_def checkOne_fields)
qed

lemma checkOne_fst:
  "fst (checkOne now st device) =
     (if offlineDue (deviceLastSeen st) now device then markOffline device else device)"
  by (simp add: checkOne_due checkOne_not_due)

lemma checkOne_emitted:
  "ioEmitted (snd (checkOne now st device)) =
     ioEmitted st @ (if offlineDue (deviceLastSeen st) now device
                     then [(''deviceUpdate'', JObj (markOffline device))] else [])"
  by (simp add: checkOne_due checkOne_not_due emit_def)

lemma forEachDevice_devices:
  "fst (forEachDevice now ds st) =
     map (\<lambda>d. if offlineDue (deviceLastSeen st) now d then markOffline d else d) ds"
proof (induction ds arbitrary: st)
  case Nil
  then show ?case by simp
next
  case (Cons d ds)
  let ?st1 = "snd (checkOne now st d)"
  have "fst (forEachDevice now ds ?st1) =
          map (\<lambda>d. if offlineDue (deviceLastSeen st) now d then markOffline d else d) ds"
    using Cons.IH [of ?st1] by (simp only: checkOne_fields)
  then show ?case
    by (simp add: split_def Let_def checkOne_fst)
qed

lemma forEachDevice_emitted:
  "ioEmitted (snd (forEachDevice now ds st)) =
     ioEmitted st @ map (\<lambda>d. (''deviceUpdate'', JObj (markOffline d)))
                      (filter (offlineDue (deviceLastSeen st) now) ds)"
proof (induction ds arbitrary: st)
  case Nil
  then show ?case by simp
next
  case (Cons d ds)
  let ?st1 = "snd (checkOne now st d)"
  have "ioEmitted (snd (forEachDevice now ds ?st1)) =
          ioEmitted ?st1 @ map (\<lambda>d. (''deviceUpdate'', JObj (markOffline d)))
                             (filter (offlineDue (deviceLastSeen st) now) ds)"
    using Cons.IH [of ?st1] by (simp only: checkOne_fields)
  then show ?case
    by (simp add: split_def Let_def checkOne_emitted)
qed

lemma filter_updateRows_other:
  assumes "x \<noteq> did" and "''id'' \<notin> fst ` set patch"
  shows "filter (\<lambda>r. jget r ''id'' = JStr did) (updateRows rows x patch)
         = filter (\<lambda>r. jget r ''id'' = JStr did) rows"
proof -
  have "filter (\<lambda>r. jget r ''id'' = JStr did) (updateRows rows x patch)
        = map (\<lambda>r. if jget r ''id'' = JStr x then assign r (json_body patch) else r)
            (filter (\<lambda>r. jget r ''id'' = JStr did) rows)"
    using assms(2) by (rule filter_id_updateRows)
  also have "\<dots> = filter (\<lambda>r. jget r ''id'' = JStr did) rows"
    using assms(1) by (induction rows) auto
  finally show ?thesis .
qed

lemma forEachDevice_rows_other:
  assumes "\<forall>d \<in> set ds. offlineDue (deviceLastSeen st) now d \<longrightarrow> str (jget d ''id'') \<noteq> did"
  shows "filter (\<lambda>r. jget r ''id'' = JStr did) (devicesTable (snd (forEachDevice now ds st)))
         = filter (\<lambda>r. jget r ''id'' = JStr did) (devicesTable st)"
  using assms
proof (induction ds arbitrary: st)
  case Nil
  then show ?case by simp
next
  case (Cons d ds)
  let ?st1 = "snd (checkOne now st d)"
  have seen: "deviceLastSeen ?st1 = deviceLastSeen st" by (simp add: checkOne_fields)
  have rest: "filter (\<lambda>r. jget r ''id'' = JStr did) (devicesTable (snd (forEachDevice now ds ?st1)))
              = filter (\<lambda>r. jget r ''id'' = JStr did) (devicesTable ?st1)"
    using Cons.prems by (intro Cons.IH) (simp add: seen)
  have one: "filter (\<lambda>r. jget r ''id'' = JStr did) (devicesTable ?st1)
             = filter (\<lambda>r. jget r ''id'' = JStr did) (devicesTable st)"
  proof (cases "offlineDue (deviceLastSeen st) now d")
    case True
    with Cons.prems have "str (jget d ''id'') \<noteq> did" by simp
    then show ?thesis
      using True by (simp add: checkOne_due emit_def filter_updateRows_other)
  next
    case False
    then show ?thesis by (simp add: checkOne_not_due)
  qed
  show ?case using rest one by (simp add: split_def Let_def)
qed

lemma checkOfflineDevices_devices:
  "memoryDevices (checkOfflineDevices st now) =
     map (\<lambda>d. if offlineDue (deviceLastSeen st) now d then markOffline d else d) (memoryDevices st)"
  by (simp add: checkOfflineDevices_def split_def Let_def forEachDevice_devices)

lemma checkOfflineDevices_emitted:
  "ioEmitted (checkOfflineDevices st now) =
     ioEmitted st @ map (\<lambda>d. (''deviceUpdate'', JObj (markOffline d)))
                      (filter (offlineDue (deviceLastSeen st) now) (memoryDevices st))"
  by (simp add: checkOfflineDevices_def split_def Let_def forEachDevice_emitted)

lemma checkOfflineDevices_fields:
  "deviceLastSeen (checkOfflineDevices st now) = deviceLastSeen st"
  "useDatabase (checkOfflineDevices st now) = useDatabase st"
  "dbOnline (checkOfflineDevices st now) = dbOnline st"
  "memorySensorHistory (checkOfflineDevices st now) = memorySensorHistory st"
  "sensorHistoryTable (checkOfflineDevices st now) = sensorHistoryTable st"
  "mqttPublished (checkOfflineDevices st now) = mqttPublished st"
  using forEachDevice_fields [of now "memoryDevices st" st]
  by (simp_all add: checkOfflineDevices_def split_def Let_def)

lemma checkOfflineDevices_rows_other:
  assumes "\<forall>d \<in> set (memoryDevices st).
             offlineDue (deviceLastSeen st) now d \<longrightarrow> str (jget d ''id'') \<noteq> did"
  shows "filter (\<lambda>r. jget r ''id'' = JStr did) (devicesTable (checkOfflineDevices st now))
         = filter (\<lambda>r. jget r ''id'' = JStr did) (devicesTable st)"
  using forEachDevice_rows_other [OF assms]
  by (simp add: checkOfflineDevices_def split_def Let_def)

lemma offlineDue_markOffline: "\<not> offlineDue seen now' (markOffline d)"
  by (simp add: offlineDue_def markOffline_def jget_jset)

lemma jget_markOffline:
  "jget (markOffline d) k = (if k = ''status'' then JStr ''offline'' else jget d k)"
  by (simp add: markOffline_def jget_jset)

lemma find_filter: "find P xs = (case filter P xs of [] \<Rightarrow> None | x # _ \<Rightarrow> Some x)"
  by (induction xs) auto

lemma getDevice_cong:
  assumes "useDatabase st' = useDatabase st" and "dbOnline st' = dbOnline st"
    and "filter (\<lambda>d. jget d ''id'' = JStr did) (memoryDevices st')
         = filter (\<lambda>d. jget d ''id'' = JStr did) (memoryDevices st)"
    and "filter (\<lambda>r. jget r ''id'' = JStr did) (devicesTable st')
         = filter (\<lambda>r. jget r ''id'' = JStr did) (devicesTable st)"
  shows "getDevice st' did = getDevice st did"
  using assms by (simp add: getDevice_def find_filter singleById_def)

lemma filter_sweep_unseen:
  assumes "seen did = None"
  shows "filter (\<lambda>d. jget d ''id'' = JStr did)
           (map (\<lambda>d. if offlineDue seen now d then markOffline d else d) ds)
         = filter (\<lambda>d. jget d ''id'' = JStr did) ds"
proof (induction ds)
  case Nil
  then show ?case by simp
next
  case (Cons d ds)
  have "jget d ''id'' = JStr did \<Longrightarrow> \<not> offlineDue seen now d"
    using assms by (simp add: offlineDue_def)
  then show ?case using Cons.IH by (auto simp: jget_markOffline)
qed

lemma events_sweep_other:
  assumes "\<forall>d \<in> set ds. due d \<longrightarrow> jget d ''id'' \<noteq> JStr did"
  shows "filter (aboutDevice did)
           (map (\<lambda>d. (''deviceUpdate'', JObj (markOffline d))) (filter due ds)) = []"
  using assms by (induction ds) (auto simp: aboutDevice_def jget_markOffline)

lemma checkOfflineDevices_unseen:
  assumes "deviceLastSeen st did = None"
  shows "filter (\<lambda>d. jget d ''id'' = JStr did) (memoryDevices (checkOfflineDevices st now))
           = filter (\<lambda>d. jget d ''id'' = JStr did) (memoryDevices st)"
    and "filter (\<lambda>r. jget r ''id'' = JStr did) (devicesTable (checkOfflineDevices st now))
           = filter (\<lambda>r. jget r ''id'' = JStr did) (devicesTable st)"
    and "filter (aboutDevice did) (ioEmitted (checkOfflineDevices st now))
           = filter (aboutDevice did) (ioEmitted st)"
proof -
  show "filter (\<lambda>d. jget d ''id'' = JStr did) (memoryDevices (checkOfflineDevices st now))
           = filter (\<lambda>d. jget d ''id'' = JStr did) (memoryDevices st)"
    using assms by (simp add: checkOfflineDevices_devices filter_sweep_unseen)
  have notdue: "\<forall>d \<in> set (memoryDevices st).
                  offlineDue (deviceLastSeen st) now d \<longrightarrow> str (jget d ''id'') \<noteq> did"
    using assms by (auto simp: offlineDue_def)
  then show "filter (\<lambda>r. jget r ''id'' = JStr did) (devicesTable (checkOfflineDevices st now))
           = filter (\<lambda>r. jget r ''id'' = JStr did) (devicesTable st)"
    by (rule checkOfflineDevices_rows_other)
  have "\<forall>d \<in> set (memoryDevices st).
          offlineDue (deviceLastSeen st) now d \<longrightarrow> jget d ''id'' \<noteq> JStr did"
    using notdue by auto
  then show "filter (aboutDevice did) (ioEmitted (checkOfflineDevices st now))
           = filter (aboutDevice did) (ioEmitted st)"
    by (simp add: checkOfflineDevices_emitted events_sweep_other)
qed

lemma sweeps_fields:
  "deviceLastSeen (sweeps st ts) = deviceLastSeen st
   \<and> useDatabase (sweeps st ts) = useDatabase st
   \<and> dbOnline (sweeps st ts) = dbOnline st"
  by (induction ts arbitrary: st) (simp_all add: checkOfflineDevices_fields)

lemma sweeps_unseen:
  assumes "deviceLastSeen st did = None"
  shows "filter (\<lambda>d. jget d ''id'' = JStr did) (memoryDevices (sweeps st ts))
           = filter (\<lambda>d. jget d ''id'' = JStr did) (memoryDevices st)
       \<and> filter (\<lambda>r. jget r ''id'' = JStr did) (devicesTable (sweeps st ts))
           = filter (\<lambda>r. jget r ''id'' = JStr did) (devicesTable st)
       \<and> filter (aboutDevice did) (ioEmitted (sweeps st ts))
           = filter (aboutDevice did) (ioEmitted st)"
  using assms
proof (induction ts arbitrary: st)
  case Nil
  then show ?case by simp
next
  case (Cons now later)
  have "deviceLastSeen (checkOfflineDevices st now) did = None"
    using Cons.prems by (simp add: checkOfflineDevices_fields)
  from Cons.IH [OF this] checkOfflineDevices_unseen [OF Cons.prems, of now]
  show ?case by simp
qed

text \<open>
  Claim C9: a registered device that has no LastSeen entry is never set offline by the
  liveness sweep, on any sweep. For every state, every device id without an entry in
  \<open>deviceLastSeen\<close> and every sequence of sweeps: what \<open>getDevice\<close> answers for the id is
  what it answered before, every record and every store row with this id is unchanged,
  and no broadcast about the device has been added.
\<close>

theorem sweeps_never_seen_untouched:
  assumes "deviceLastSeen st did = None"
  shows "getDevice (sweeps st ts) did = getDevice st did
       \<and> filter (\<lambda>d. jget d ''id'' = JStr did) (memoryDevices (sweeps st ts))
           = filter (\<lambda>d. jget d ''id'' = JStr did) (memoryDevices st)
       \<and> filter (\<lambda>r. jget r ''id'' = JStr did) (devicesTable (sweeps st ts))
           = filter (\<lambda>r. jget r ''id'' = JStr did) (devicesTable st)
       \<and> filter (aboutDevice did) (ioEmitted (sweeps st ts))
           = filter (aboutDevice did) (ioEmitted st)"
proof -
  note u = sweeps_unseen [OF assms, of ts]
  have "getDevice (sweeps st ts) did = getDevice st did"
    using u by (intro getDevice_cong) (simp_all add: sweeps_fields)
  then show ?thesis using u by simp
qed

theorem sweeps_never_seen_untouched_witness:
  "deviceLastSeen (initMemory 0) ''device_001'' = None
   \<and> getDevice (sweeps (initMemory 0) [30000, 60000, 90000]) ''device_001''
       = Some (seedDevice 0)
   \<and> jget (seedDevice 0) ''status'' = JStr ''online''
   \<and> filter (aboutDevice ''device_001'')
        (ioEmitted (sweeps (initMemory 0) [30000, 60000, 90000])) = []"
proof -
  have h: "deviceLastSeen (initMemory 0) ''device_001'' = None"
    by (simp add: initMemory_def)
  have g: "getDevice (initMemory 0) ''device_001'' = Some (seedDevice 0)"
    by (simp add: getDevice_def initMemory_def seedDevice_def jget_def)
  have e: "ioEmitted (initMemory 0) = []"
    by (simp add: initMemory_def)
  have s: "jget (seedDevice 0) ''status'' = JStr ''online''"
    by (simp add: seedDevice_def jget_def)
  show ?thesis
    using sweeps_never_seen_untouched [OF h, of "[30000, 60000, 90000]"] h g e s by simp
qed

text \<open>In every mode a record that is due is marked and broadcast once by the sweep
  (\<open>checkOfflineDevices_devices\<close>, \<open>checkOfflineDevices_emitted\<close>), and a marked record is
  not due again while it stays offline (\<open>offlineDue_markOffline\<close>). The records swept are
  those of \<open>memoryDevices\<close>, whatever the mode.\<close>

text \<open>
  Claim C1: on every sweep, every registered device whose last message is older than the
  timeout and whose Registry status is not yet offline is set offline, with one
  broadcast. With the store configured this fails for every device that is registered
  in the store and has no record in \<open>memoryDevices\<close> (every device created after
  start-up, since \<open>createDevice\<close> then writes only to the store): after the sweep
  \<open>getDevice\<close> answers exactly what it answered before, and nothing was broadcast about
  the device.
\<close>

theorem checkOfflineDevices_misses_store_device:
  assumes "useDatabase st"
    and "getDevice st did = Some d"
    and "jget d ''status'' \<noteq> JStr ''offline''"
    and "deviceLastSeen st did = Some t" and "t \<noteq> 0" and "now - t > OFFLINE_TIMEOUT"
    and "\<forall>m \<in> set (memoryDevices st). str (jget m ''id'') \<noteq> did"
  shows "getDevice (checkOfflineDevices st now) did = Some d
       \<and> filter (aboutDevice did) (ioEmitted (checkOfflineDevices st now))
           = filter (aboutDevice did) (ioEmitted st)"
proof -
  have rows: "filter (\<lambda>r. jget r ''id'' = JStr did) (devicesTable (checkOfflineDevices st now))
              = filter (\<lambda>r. jget r ''id'' = JStr did) (devicesTable st)"
    using assms(7) by (intro checkOfflineDevices_rows_other) simp
  have "getDevice (checkOfflineDevices st now) did = getDevice st did"
    using assms(1) rows
    by (simp add: getDevice_def singleById_def checkOfflineDevices_fields)
  moreover have "\<forall>m \<in> set (memoryDevices st).
                   offlineDue (deviceLastSeen st) now m \<longrightarrow> jget m ''id'' \<noteq> JStr did"
    using assms(7) by auto
  then have "filter (aboutDevice did) (ioEmitted (checkOfflineDevices st now))
             = filter (aboutDevice did) (ioEmitted st)"
    by (simp add: checkOfflineDevices_emitted events_sweep_other)
  ultimately show ?thesis using assms(2) by simp
qed

theorem checkOfflineDevices_misses_store_device_witness:
  "\<exists>d. getDevice
          (mqttMessage
             (fst (postDevices (initDatabase 0) [(''name'', JStr ''bed''), (''ip'', JStr ''10.0.0.7'')]
                     1000))
             ''device_1000'' ''data''
             (Some (JObj [(''temperature'', JNum 30), (''humidity'', JNum 60),
                          (''soilPercent'', JNum 50)])) 2000)
          ''device_1000'' = Some d
      \<and> jget d ''status'' = JStr ''online''
      \<and> getDevice
          (checkOfflineDevices
             (mqttMessage
                (fst (postDevices (initDatabase 0)
                        [(''name'', JStr ''bed''), (''ip'', JStr ''10.0.0.7'')] 1000))
                ''device_1000'' ''data''
                (Some (JObj [(''temperature'', JNum 30), (''humidity'', JNum 60),
                             (''soilPercent'', JNum 50)])) 2000)
             32000)
          ''device_1000'' = Some d"
proof -
  let ?st = "mqttMessage
             (fst (postDevices (initDatabase 0) [(''name'', JStr ''bed''), (''ip'', JStr ''10.0.0.7'')]
                     1000))
             ''device_1000'' ''data''
             (Some (JObj [(''temperature'', JNum 30), (''humidity'', JNum 60),
                          (''soilPercent'', JNum 50)])) 2000"
  have a: "useDatabase ?st" by code_simp
  have "map_option (\<lambda>d. jget d ''status'') (getDevice ?st ''device_1000'')
        = Some (JStr ''online'')" by code_simp
  then obtain d where b: "getDevice ?st ''device_1000'' = Some d"
    and c: "jget d ''status'' = JStr ''online''" by auto
  have c': "jget d ''status'' \<noteq> JStr ''offline''" using c by simp
  have e: "deviceLastSeen ?st ''device_1000'' = Some 2000" by code_simp
  have f: "(2000::int) \<noteq> 0" by simp
  have g: "32000 - 2000 > OFFLINE_TIMEOUT" by (simp add: OFFLINE_TIMEOUT_def)
  have h: "\<forall>m \<in> set (memoryDevices ?st). str (jget m ''id'') \<noteq> ''device_1000''" by code_simp
  show ?thesis
    using checkOfflineDevices_misses_store_device [OF a b c' e f g h] b c by blast
qed

section \<open>Updating a device\<close>

lemma jget_notin: "k \<notin> fst ` set ob \<Longrightarrow> jget ob k = JUndefined"
  by (simp add: jget_def map_of_eq_None_iff [THEN iffD2])

lemma updateDevice_memory:
  assumes "\<not> useDatabase st"
    and "find (\<lambda>d. jget d ''id'' = JStr did) (memoryDevices st) = Some d"
  shows "updateDevice st did updates now =
           (st\<lparr>memoryDevices :=
                 replaceFirst (\<lambda>d. jget d ''id'' = JStr did)
                   (assign (assign d updates) [(''lastUpdate'', JDate now)]) (memoryDevices st)\<rparr>,
            Some (assign (assign d updates) [(''lastUpdate'', JDate now)]))"
  using assms by (simp add: updateDevice_def Let_def)

lemma updateDevice_store:
  assumes "useDatabase st" and "dbOnline st"
    and "singleById (devicesTable st) did = Some row"
  shows "updateDevice st did updates now =
           (st\<lparr>devicesTable := updateRows (devicesTable st) did (dbUpdatesOf updates now)\<rparr>,
            Some (mapDeviceFromDB (assign row (json_body (dbUpdatesOf updates now)))))"
  using assms by (simp add: updateDevice_def Let_def)

lemma updateDevice_none:
  "getDevice st did = None \<Longrightarrow> updateDevice st did updates now = (st, None)"
  by (auto simp: updateDevice_def getDevice_def Let_def split: if_splits)

lemma updateDevice_Some_getDevice:
  "updateDevice st did updates now = (st', Some d') \<Longrightarrow> \<exists>d. getDevice st did = Some d"
  by (cases "getDevice st did") (simp_all add: updateDevice_none)

lemma json_body_dbUpdatesOf:
  "json_body (dbUpdatesOf updates now) =
   json_body
     [(''temperature'', jget updates ''temperature''),
      (''humidity'', jget updates ''humidity''),
      (''soil_moisture'', jget updates ''soilMoisture''),
      (''pump_active'', jget updates ''pumpActive''),
      (''status'', jget updates ''status''),
      (''mode'', jget updates ''mode''),
      (''last_update'', JIso now)]"
  by (simp add: json_body_def dbUpdatesOf_def)

text \<open>The row after the store has applied \<open>dbUpdates\<close>.\<close>

lemma jget_row_updated:
  "jget (assign row (json_body (dbUpdatesOf updates now))) c =
     (case map_of
        [(''temperature'', jget updates ''temperature''),
         (''humidity'', jget updates ''humidity''),
         (''soil_moisture'', jget updates ''soilMoisture''),
         (''pump_active'', jget updates ''pumpActive''),
         (''status'', jget updates ''status''),
         (''mode'', jget updates ''mode''),
         (''last_update'', JIso now)] c of
        None \<Rightarrow> jget row c
      | Some v \<Rightarrow> if v = JUndefined then jget row c else json_value v)"
  unfolding json_body_dbUpdatesOf by (rule jget_assign_json) simp

lemma keys_dbUpdatesOf: "''id'' \<notin> fst ` set (json_body (dbUpdatesOf updates now))"
proof -
  have "fst ` set (json_body (dbUpdatesOf updates now))
        \<subseteq> fst ` set [(''temperature'', jget updates ''temperature''),
      (''humidity'', jget updates ''humidity''),
      (''soil_moisture'', jget updates ''soilMoisture''),
      (''pump_active'', jget updates ''pumpActive''),
      (''status'', jget updates ''status''),
      (''mode'', jget updates ''mode''),
      (''last_update'', JIso now)]"
    unfolding json_body_dbUpdatesOf by (rule keys_json_body)
  then show ?thesis by auto
qed

lemma jget_Nil: "jget [] k = JUndefined"
  by (simp add: jget_def)

lemma jget_Cons: "jget ((a, v) # ob) k = (if k = a then v else jget ob k)"
  by (simp add: jget_def)

lemma store_frame:
  assumes "k \<notin> fst ` set updates" and "k \<noteq> ''lastUpdate''"
  shows "jget (mapDeviceFromDB (assign row (json_body (dbUpdatesOf updates now)))) k
         = jget (mapDeviceFromDB row) k"
proof -
  have u: "jget updates k = JUndefined" using assms(1) by (rule jget_notin)
  show ?thesis
    using u assms(2)
    by (auto simp: mapDeviceFromDB_def jget_Cons jget_Nil jget_row_updated)
qed

lemma store_lastUpdate:
  "jget (mapDeviceFromDB (assign row (json_body (dbUpdatesOf updates now)))) ''lastUpdate''
   = JIso now"
  by (simp add: mapDeviceFromDB_def jget_Cons jget_Nil jget_row_updated)

lemma singleById_updateRows_same:
  assumes "singleById rows did = Some row" and "''id'' \<notin> fst ` set (json_body patch)"
  shows "singleById (updateRows rows did patch) did = Some (assign row (json_body patch))"
proof -
  have f: "filter (\<lambda>r. jget r ''id'' = JStr did) rows = [row]"
    using assms(1) by (rule singleById_Some)
  have i: "jget row ''id'' = JStr did" using assms(1) by (rule singleById_id)
  have eq: "\<And>r. jget (assign r (json_body patch)) ''id'' = jget r ''id''"
    using assms(2) by (rule jget_assign_other)
  have "filter (\<lambda>r. jget r ''id'' = JStr did) (updateRows rows did patch)
        = map (\<lambda>r. if jget r ''id'' = JStr did then assign r (json_body patch) else r)
            (filter (\<lambda>r. jget r ''id'' = JStr did) rows)"
    unfolding updateRows_def by (induction rows) (simp_all add: eq)
  then show ?thesis using f i by (simp add: singleById_def)
qed

lemma singleById_updateRows_other:
  assumes "other \<noteq> did" and "''id'' \<notin> fst ` set (json_body patch)"
  shows "singleById (updateRows rows did patch) other = singleById rows other"
proof -
  have eq: "\<And>r. jget (assign r (json_body patch)) ''id'' = jget r ''id''"
    using assms(2) by (rule jget_assign_other)
  have "filter (\<lambda>r. jget r ''id'' = JStr other) (updateRows rows did patch)
        = filter (\<lambda>r. jget r ''id'' = JStr other) rows"
    unfolding updateRows_def using assms(1) by (induction rows) (simp_all add: eq)
  then show ?thesis by (simp add: singleById_def)
qed

lemma updateDevice_memory_frame:
  assumes "\<not> useDatabase st"
    and "updateDevice st did updates now = (st', Some d')"
  shows "\<exists>d. getDevice st did = Some d
           \<and> d' = assign (assign d updates) [(''lastUpdate'', JDate now)]
           \<and> memoryDevices st' = replaceFirst (\<lambda>x. jget x ''id'' = JStr did) d' (memoryDevices st)"
proof -
  from assms(2) obtain d where g: "getDevice st did = Some d"
    using updateDevice_Some_getDevice by blast
  then have f: "find (\<lambda>d. jget d ''id'' = JStr did) (memoryDevices st) = Some d"
    using assms(1) by (simp add: getDevice_def)
  show ?thesis
    using assms(2) g unfolding updateDevice_memory [OF assms(1) f] by auto
qed

lemma updateDevice_store_frame:
  assumes "useDatabase st"
    and "updateDevice st did updates now = (st', Some d')"
  shows "\<exists>row. dbOnline st \<and> singleById (devicesTable st) did = Some row
           \<and> getDevice st did = Some (mapDeviceFromDB row)
           \<and> d' = mapDeviceFromDB (assign row (json_body (dbUpdatesOf updates now)))
           \<and> st' = st\<lparr>devicesTable := updateRows (devicesTable st) did (dbUpdatesOf updates now)\<rparr>"
proof -
  from assms(2) obtain d where g: "getDevice st did = Some d"
    using updateDevice_Some_getDevice by blast
  then have on: "dbOnline st" using assms(1) by (auto simp: getDevice_def split: if_splits)
  with g assms(1) obtain row where r: "singleById (devicesTable st) did = Some row"
    by (auto simp: getDevice_def)
  show ?thesis
    using assms(2) r on assms(1) unfolding updateDevice_store [OF assms(1) on r]
    by (auto simp: getDevice_def)
qed

lemma updateDevice_effect:
  assumes "updateDevice st did updates now = (st', Some d')"
  shows "\<exists>d. getDevice st did = Some d
           \<and> (\<forall>k. k \<notin> fst ` set updates \<longrightarrow> k \<noteq> ''lastUpdate'' \<longrightarrow> jget d' k = jget d k)
           \<and> dateTime (jget d' ''lastUpdate'') = Some now
           \<and> (''id'' \<notin> fst ` set updates \<longrightarrow>
                getDevice st' did = Some d'
                \<and> (\<forall>other. other \<noteq> did \<longrightarrow> getDevice st' other = getDevice st other))"
proof (cases "useDatabase st")
  case False
  from updateDevice_memory_frame [OF False assms] obtain d where
    g: "getDevice st did = Some d"
    and d': "d' = assign (assign d updates) [(''lastUpdate'', JDate now)]"
    and m: "memoryDevices st' = replaceFirst (\<lambda>x. jget x ''id'' = JStr did) d' (memoryDevices st)"
    by blast
  have f: "find (\<lambda>d. jget d ''id'' = JStr did) (memoryDevices st) = Some d"
    using g False by (simp add: getDevice_def)
  then have idd: "jget d ''id'' = JStr did" by (auto dest: find_Some_sat)
  have u': "useDatabase st' = useDatabase st"
    using assms False f by (auto simp: updateDevice_memory)
  have frame: "\<forall>k. k \<notin> fst ` set updates \<longrightarrow> k \<noteq> ''lastUpdate'' \<longrightarrow> jget d' k = jget d k"
    by (simp add: d' jget_assign_other)
  have stamp: "dateTime (jget d' ''lastUpdate'') = Some now"
    by (simp add: d' jget_assign)
  have reg: "getDevice st' did = Some d'
             \<and> (\<forall>other. other \<noteq> did \<longrightarrow> getDevice st' other = getDevice st other)"
    if noid: "''id'' \<notin> fst ` set updates"
  proof -
    have idd': "jget d' ''id'' = JStr did" using noid idd by (simp add: d' jget_assign_other)
    have "find (\<lambda>x. jget x ''id'' = JStr did) (memoryDevices st') = Some d'"
      unfolding m using f idd' by (rule find_replaceFirst_same)
    moreover have "find (\<lambda>x. jget x ''id'' = JStr other) (memoryDevices st')
                   = find (\<lambda>x. jget x ''id'' = JStr other) (memoryDevices st)"
      if "other \<noteq> did" for other
      unfolding m
      using find_replaceFirst_other [where Q = "\<lambda>x. jget x ''id'' = JStr other", OF f, of d']
        that idd idd' by simp
    ultimately show ?thesis using False u' by (simp add: getDevice_def)
  qed
  show ?thesis using g frame stamp reg by blast
next
  case True
  from updateDevice_store_frame [OF True assms] obtain row where
    on: "dbOnline st" and r: "singleById (devicesTable st) did = Some row"
    and g: "getDevice st did = Some (mapDeviceFromDB row)"
    and d': "d' = mapDeviceFromDB (assign row (json_body (dbUpdatesOf updates now)))"
    and st': "st' = st\<lparr>devicesTable := updateRows (devicesTable st) did (dbUpdatesOf updates now)\<rparr>"
    by blast
  have frame: "\<forall>k. k \<notin> fst ` set updates \<longrightarrow> k \<noteq> ''lastUpdate'' \<longrightarrow>
                 jget d' k = jget (mapDeviceFromDB row) k"
    by (simp add: d' store_frame)
  have stamp: "dateTime (jget d' ''lastUpdate'') = Some now"
    by (simp add: d' store_lastUpdate)
  have same: "getDevice st' did = Some d'"
    using True on singleById_updateRows_same [OF r keys_dbUpdatesOf]
    by (simp add: st' d' getDevice_def)
  have others: "\<forall>other. other \<noteq> did \<longrightarrow> getDevice st' other = getDevice st other"
    using True on by (simp add: st' getDevice_def singleById_updateRows_other keys_dbUpdatesOf)
  show ?thesis using g frame stamp same others by blast
qed

text \<open>
  Claim C6: a successful \<open>update(id, patch)\<close> changes only the fields present in the
  patch and always refreshes \<open>lastUpdate\<close>. Whenever \<open>updateDevice\<close> returns a device
  \<open>d'\<close>, the id was registered with some device \<open>d\<close>; every key that is neither in the
  patch nor \<open>lastUpdate\<close> reads in \<open>d'\<close> as it did in \<open>d\<close>; \<open>lastUpdate\<close> of \<open>d'\<close>
  is the clock reading of the call; and (for a patch that does not assign \<open>id\<close>)
  \<open>d'\<close> is what the Registry now holds for the id, while every other id reads as
  before.
\<close>

theorem updateDevice_frame:
  assumes "updateDevice st did updates now = (st', Some d')"
  shows "\<exists>d. getDevice st did = Some d
           \<and> (\<forall>k. k \<notin> fst ` set updates \<longrightarrow> k \<noteq> ''lastUpdate'' \<longrightarrow> jget d' k = jget d k)
           \<and> dateTime (jget d' ''lastUpdate'') = Some now
           \<and> (''id'' \<notin> fst ` set updates \<longrightarrow>
                getDevice st' did = Some d'
                \<and> (\<forall>other. other \<noteq> did \<longrightarrow> getDevice st' other = getDevice st other))"
  using assms by (rule updateDevice_effect)

theorem updateDevice_frame_witness:
  "\<exists>d. getDevice (initMemory 0) ''device_001'' = Some d
       \<and> jget d ''mode'' = JStr ''auto''
       \<and> jget (the (snd (updateDevice (initMemory 0) ''device_001'' [(''mode'', JStr ''manual'')] 7)))
            ''mode'' = JStr ''manual''
       \<and> jget (the (snd (updateDevice (initMemory 0) ''device_001'' [(''mode'', JStr ''manual'')] 7)))
            ''humidity'' = jget d ''humidity''
       \<and> dateTime
            (jget (the (snd (updateDevice (initMemory 0) ''device_001'' [(''mode'', JStr ''manual'')] 7)))
               ''lastUpdate'') = Some 7"
proof -
  let ?r = "updateDevice (initMemory 0) ''device_001'' [(''mode'', JStr ''manual'')] 7"
  have "snd ?r \<noteq> None" by code_simp
  then have h: "?r = (fst ?r, Some (the (snd ?r)))" by (cases ?r) auto
  have k: "''humidity'' \<notin> fst ` set [(''mode'', JStr ''manual'')]" by simp
  have a: "map_option (\<lambda>d. jget d ''mode'') (getDevice (initMemory 0) ''device_001'')
           = Some (JStr ''auto'')" by code_simp
  have b: "jget (the (snd ?r)) ''mode'' = JStr ''manual''" by code_simp
  from updateDevice_frame [OF h] obtain d where
    g: "getDevice (initMemory 0) ''device_001'' = Some d"
    and f: "\<forall>k. k \<notin> fst ` set [(''mode'', JStr ''manual'')] \<longrightarrow> k \<noteq> ''lastUpdate'' \<longrightarrow>
              jget (the (snd ?r)) k = jget d k"
    and s: "dateTime (jget (the (snd ?r)) ''lastUpdate'') = Some 7"
    by blast
  from f k have "jget (the (snd ?r)) ''humidity'' = jget d ''humidity''" by simp
  moreover from a g have "jget d ''mode'' = JStr ''auto''" by simp
  ultimately show ?thesis using g b s by blast
qed

section \<open>Telemetry, commands and the fields they write\<close>

lemma getDevice_cases:
  assumes "getDevice st did = Some d"
  shows "(\<not> useDatabase st \<and> find (\<lambda>d. jget d ''id'' = JStr did) (memoryDevices st) = Some d)
       \<or> (useDatabase st \<and> dbOnline st
           \<and> (\<exists>row. singleById (devicesTable st) did = Some row \<and> d = mapDeviceFromDB row))"
proof (cases "useDatabase st")
  case True
  then show ?thesis using assms by (cases "dbOnline st") (auto simp: getDevice_def)
next
  case False
  then show ?thesis using assms by (simp add: getDevice_def)
qed

lemma updateDevice_succeeds:
  assumes "getDevice st did = Some d"
  shows "\<exists>st' d'. updateDevice st did updates now = (st', Some d')"
  using getDevice_cases [OF assms]
  by (auto simp: updateDevice_memory updateDevice_store)

lemma updateDevice_fields:
  assumes "updateDevice st did updates now = (st', r)"
  shows "useDatabase st' = useDatabase st \<and> dbOnline st' = dbOnline st
       \<and> deviceLastSeen st' = deviceLastSeen st \<and> ioEmitted st' = ioEmitted st
       \<and> mqttPublished st' = mqttPublished st
       \<and> memorySensorHistory st' = memorySensorHistory st
       \<and> sensorHistoryTable st' = sensorHistoryTable st
       \<and> sensorHistorySerial st' = sensorHistorySerial st"
proof (cases "getDevice st did")
  case None
  then show ?thesis using assms by (simp add: updateDevice_none)
next
  case (Some d)
  from getDevice_cases [OF Some] show ?thesis
  proof (elim disjE conjE exE)
    assume a: "\<not> useDatabase st" "find (\<lambda>d. jget d ''id'' = JStr did) (memoryDevices st) = Some d"
    show ?thesis using assms unfolding updateDevice_memory [OF a] by auto
  next
    fix row
    assume a: "useDatabase st" "dbOnline st" "singleById (devicesTable st) did = Some row"
    show ?thesis using assms unfolding updateDevice_store [OF a] by auto
  qed
qed

lemma updateDevice_None_state:
  assumes "updateDevice st did updates now = (st', None)"
  shows "st' = st"
proof (cases "getDevice st did")
  case None
  then show ?thesis using assms by (simp add: updateDevice_none)
next
  case (Some d)
  from updateDevice_succeeds [OF Some, of updates now] assms show ?thesis by auto
qed



lemma getDevice_same:
  assumes "useDatabase st' = useDatabase st" and "dbOnline st' = dbOnline st"
    and "memoryDevices st' = memoryDevices st" and "devicesTable st' = devicesTable st"
  shows "getDevice st' did = getDevice st did"
  using assms by (simp add: getDevice_def)

lemma storeSensorHistory_registry:
  "useDatabase (storeSensorHistory st did data now) = useDatabase st"
  "dbOnline (storeSensorHistory st did data now) = dbOnline st"
  "memoryDevices (storeSensorHistory st did data now) = memoryDevices st"
  "devicesTable (storeSensorHistory st did data now) = devicesTable st"
  "ioEmitted (storeSensorHistory st did data now) = ioEmitted st"
  "deviceLastSeen (storeSensorHistory st did data now) = deviceLastSeen st"
  by (simp_all add: storeSensorHistory_def Let_def)

lemma emit_fields:
  "useDatabase (emit e v st) = useDatabase st"
  "dbOnline (emit e v st) = dbOnline st"
  "memoryDevices (emit e v st) = memoryDevices st"
  "devicesTable (emit e v st) = devicesTable st"
  "ioEmitted (emit e v st) = ioEmitted st @ [(e, v)]"
  "deviceLastSeen (emit e v st) = deviceLastSeen st"
  "memorySensorHistory (emit e v st) = memorySensorHistory st"
  "sensorHistoryTable (emit e v st) = sensorHistoryTable st"
  "mqttPublished (emit e v st) = mqttPublished st"
  by (simp_all add: emit_def)

lemma publish_fields:
  "useDatabase (publish t v st) = useDatabase st"
  "dbOnline (publish t v st) = dbOnline st"
  "memoryDevices (publish t v st) = memoryDevices st"
  "devicesTable (publish t v st) = devicesTable st"
  "ioEmitted (publish t v st) = ioEmitted st"
  "deviceLastSeen (publish t v st) = deviceLastSeen st"
  "memorySensorHistory (publish t v st) = memorySensorHistory st"
  "sensorHistoryTable (publish t v st) = sensorHistoryTable st"
  by (simp_all add: publish_def)

text \<open>What \<open>handleDeviceData\<close> does for a registered device and a payload that is not
  \<open>null\<close>: the update succeeds, a sample is stored, the device is broadcast.\<close>

lemma handleDeviceData_registered:
  assumes "getDevice st did = Some d" and "data \<noteq> JNull" and "data \<noteq> JUndefined"
  shows "\<exists>st1 d'.
           updateDevice (st\<lparr>deviceLastSeen := (deviceLastSeen st)(did \<mapsto> now)\<rparr>) did
             (telemetryUpdates data) now = (st1, Some d')
         \<and> handleDeviceData st did data now =
             (emit ''deviceUpdate'' (JObj d') (storeSensorHistory st1 did data now), None)
         \<and> getDevice (fst (handleDeviceData st did data now)) did = Some d'"
proof -
  let ?st0 = "st\<lparr>deviceLastSeen := (deviceLastSeen st)(did \<mapsto> now)\<rparr>"
  have "getDevice ?st0 did = getDevice st did"
    by (rule getDevice_same) simp_all
  then have "getDevice ?st0 did = Some d"
    using assms(1) by simp
  then obtain st1 d' where u: "updateDevice ?st0 did (telemetryUpdates data) now = (st1, Some d')"
    using updateDevice_succeeds by blast
  have h: "handleDeviceData st did data now =
             (emit ''deviceUpdate'' (JObj d') (storeSensorHistory st1 did data now), None)"
    using assms(2,3) u by (simp add: handleDeviceData_def Let_def)
  have "''id'' \<notin> fst ` set (telemetryUpdates data)"
    by (simp add: telemetryUpdates_def)
  with updateDevice_effect [OF u] have "getDevice st1 did = Some d'" by blast
  moreover have "getDevice (fst (handleDeviceData st did data now)) did = getDevice st1 did"
    unfolding h by (rule getDevice_same) (simp_all add: emit_fields storeSensorHistory_registry)
  ultimately have "getDevice (fst (handleDeviceData st did data now)) did = Some d'"
    by simp
  with u h show ?thesis by blast
qed

lemma distinct_telemetryUpdates: "distinct (map fst (telemetryUpdates data))"
  by (simp add: telemetryUpdates_def)

lemma map_of_telemetryUpdates:
  "map_of (telemetryUpdates data) ''temperature'' = Some (readProp data ''temperature'')"
  "map_of (telemetryUpdates data) ''humidity'' = Some (readProp data ''humidity'')"
  "map_of (telemetryUpdates data) ''soilMoisture'' = Some (readProp data ''soilPercent'')"
  "map_of (telemetryUpdates data) ''pumpActive''
     = Some (jor (readProp data ''pumpActive'') (JBool False))"
  "map_of (telemetryUpdates data) ''status''
     = Some (JStr (if truthy (readProp data ''pumpActive'') then ''watering'' else ''online''))"
  by (simp_all add: telemetryUpdates_def)





section \<open>Pump, mode and status commands\<close>










lemma postPump_missing: "getDevice st did = None \<Longrightarrow> postPump st did body now = (st, notFound)"
  by (simp add: postPump_def Let_def)

lemma postMode_missing: "getDevice st did = None \<Longrightarrow> postMode st did body now = (st, notFound)"
  by (simp add: postMode_def Let_def)





section \<open>Status and pump flag\<close>


lemma sweep_keeps_other_keys:
  "k \<noteq> ''status'' \<Longrightarrow>
   map (\<lambda>m. jget m k) (memoryDevices (checkOfflineDevices st now))
   = map (\<lambda>m. jget m k) (memoryDevices st)"
  by (simp add: checkOfflineDevices_devices jget_markOffline)




section \<open>Payloads that are not numbers\<close>







section \<open>The two spellings in the in-memory fallback\<close>

lemma map_replaceFirst:
  "find P xs = Some x \<Longrightarrow> f y = f x \<Longrightarrow> map f (replaceFirst P y xs) = map f xs"
  by (induction xs) (auto split: if_splits)

lemma updateDevice_fst_fields:
  "useDatabase (fst (updateDevice st did updates now)) = useDatabase st"
  "ioEmitted (fst (updateDevice st did updates now)) = ioEmitted st"
  using updateDevice_fields [of st did updates now "fst (updateDevice st did updates now)"
          "snd (updateDevice st did updates now)"]
  by simp_all

lemma updateDevice_memory_key:
  assumes "\<not> useDatabase st" and "k \<notin> fst ` set updates" and "k \<noteq> ''lastUpdate''"
  shows "keyColumn k (fst (updateDevice st did updates now)) = keyColumn k st"
proof (cases "find (\<lambda>d. jget d ''id'' = JStr did) (memoryDevices st)")
  case None
  then have "getDevice st did = None" using assms(1) by (simp add: getDevice_def)
  then show ?thesis by (simp add: updateDevice_none)
next
  case (Some d)
  have "jget (assign (assign d updates) [(''lastUpdate'', JDate now)]) k = jget d k"
    using assms(2,3) by (simp add: jget_assign_other)
  then show ?thesis
    unfolding updateDevice_memory [OF assms(1) Some] keyColumn_def
    using map_replaceFirst [OF Some, where f = "\<lambda>d. jget d k"] by simp
qed

lemma keeps_after_update:
  assumes "\<not> useDatabase st1" and "memoryDevices st1 = memoryDevices st"
    and "k \<notin> fst ` set updates" and "k \<noteq> ''lastUpdate''"
    and "memoryDevices st' = memoryDevices (fst (updateDevice st1 did updates now))"
  shows "keyColumn k st' = keyColumn k st"
proof -
  have "keyColumn k st' = keyColumn k (fst (updateDevice st1 did updates now))"
    using assms(5) by (simp add: keyColumn_def)
  also have "\<dots> = keyColumn k st1" using assms(1,3,4) by (rule updateDevice_memory_key)
  also have "\<dots> = keyColumn k st" using assms(2) by (simp add: keyColumn_def)
  finally show ?thesis .
qed

lemma handleDeviceData_memoryDevices:
  "memoryDevices (fst (handleDeviceData st did data now)) =
     (if data = JNull \<or> data = JUndefined then memoryDevices st
      else memoryDevices
             (fst (updateDevice (st\<lparr>deviceLastSeen := (deviceLastSeen st)(did \<mapsto> now)\<rparr>) did
                     (telemetryUpdates data) now)))"
  by (simp add: handleDeviceData_def Let_def split_def emit_fields storeSensorHistory_registry
           split: option.splits)

lemma handleDeviceData_useDatabase:
  "useDatabase (fst (handleDeviceData st did data now)) = useDatabase st"
  by (simp add: handleDeviceData_def Let_def split_def emit_fields storeSensorHistory_registry
        updateDevice_fst_fields split: option.splits)

lemma handleDeviceData_keeps:
  assumes "\<not> useDatabase st" and "snakeKey k"
  shows "keyColumn k (fst (handleDeviceData st did data now)) = keyColumn k st"
proof (cases "data = JNull \<or> data = JUndefined")
  case True
  then show ?thesis by (simp add: keyColumn_def handleDeviceData_memoryDevices)
next
  case False
  show ?thesis
  proof (rule keeps_after_update)
    show "\<not> useDatabase (st\<lparr>deviceLastSeen := (deviceLastSeen st)(did \<mapsto> now)\<rparr>)"
      using assms(1) by simp
    show "memoryDevices (st\<lparr>deviceLastSeen := (deviceLastSeen st)(did \<mapsto> now)\<rparr>) = memoryDevices st"
      by simp
    show "k \<notin> fst ` set (telemetryUpdates data)"
      using assms(2) by (auto simp: snakeKey_def telemetryUpdates_def)
    show "k \<noteq> ''lastUpdate''" using assms(2) by (auto simp: snakeKey_def)
    show "memoryDevices (fst (handleDeviceData st did data now))
          = memoryDevices
              (fst (updateDevice (st\<lparr>deviceLastSeen := (deviceLastSeen st)(did \<mapsto> now)\<rparr>) did
                      (telemetryUpdates data) now))"
      using False by (simp add: handleDeviceData_memoryDevices)
  qed
qed

lemma handleDeviceStatus_memoryDevices:
  "memoryDevices (fst (handleDeviceStatus st did data now)) =
     (if data = JNull \<or> data = JUndefined then memoryDevices st
      else memoryDevices (fst (updateDevice st did [(''status'', readProp data ''status'')] now)))"
  by (simp add: handleDeviceStatus_def Let_def split_def emit_fields split: option.splits)

lemma handleDeviceStatus_useDatabase:
  "useDatabase (fst (handleDeviceStatus st did data now)) = useDatabase st"
  by (simp add: handleDeviceStatus_def Let_def split_def emit_fields updateDevice_fst_fields
           split: option.splits)

lemma handleDeviceStatus_keeps:
  assumes "\<not> useDatabase st" and "snakeKey k"
  shows "keyColumn k (fst (handleDeviceStatus st did data now)) = keyColumn k st"
proof (cases "data = JNull \<or> data = JUndefined")
  case True
  then show ?thesis by (simp add: keyColumn_def handleDeviceStatus_memoryDevices)
next
  case False
  show ?thesis
  proof (rule keeps_after_update)
    show "\<not> useDatabase st" by (rule assms(1))
    show "memoryDevices st = memoryDevices st" by simp
    show "k \<notin> fst ` set [(''status'', readProp data ''status'')]"
      using assms(2) by (auto simp: snakeKey_def)
    show "k \<noteq> ''lastUpdate''" using assms(2) by (auto simp: snakeKey_def)
    show "memoryDevices (fst (handleDeviceStatus st did data now))
          = memoryDevices (fst (updateDevice st did [(''status'', readProp data ''status'')] now))"
      using False by (simp add: handleDeviceStatus_memoryDevices)
  qed
qed

lemma mqttMessage_keeps:
  assumes "\<not> useDatabase st" and "snakeKey k"
  shows "keyColumn k (mqttMessage st did messageType payload now) = keyColumn k st"
  using assms
  by (simp add: mqttMessage_def handleDeviceData_keeps handleDeviceStatus_keeps
           split: option.splits)

lemma mqttMessage_useDatabase:
  "useDatabase (mqttMessage st did messageType payload now) = useDatabase st"
  by (simp add: mqttMessage_def handleDeviceData_useDatabase handleDeviceStatus_useDatabase
           split: option.splits)

lemma postPump_keeps:
  assumes "\<not> useDatabase st" and "snakeKey k"
  shows "keyColumn k (fst (postPump st did body now)) = keyColumn k st"
proof (cases "getDevice st did")
  case None
  then show ?thesis by (simp add: postPump_missing)
next
  case (Some d)
  let ?t = "jget body ''action'' = JStr ''on''"
  let ?st1 = "publish (commandTopic (jget d ''id'')) [(''pump'', JBool ?t)] st"
  show ?thesis
  proof (rule keeps_after_update)
    show "\<not> useDatabase ?st1" using assms(1) by (simp add: publish_fields)
    show "memoryDevices ?st1 = memoryDevices st" by (simp add: publish_fields)
    show "k \<notin> fst ` set (pumpUpdates ?t)"
      using assms(2) by (auto simp: snakeKey_def pumpUpdates_def)
    show "k \<noteq> ''lastUpdate''" using assms(2) by (auto simp: snakeKey_def)
    show "memoryDevices (fst (postPump st did body now))
          = memoryDevices (fst (updateDevice ?st1 did (pumpUpdates ?t) now))"
      using Some by (simp add: postPump_def Let_def split_def emit_fields)
  qed
qed

lemma postMode_keeps:
  assumes "\<not> useDatabase st" and "snakeKey k"
  shows "keyColumn k (fst (postMode st did body now)) = keyColumn k st"
proof (cases "getDevice st did")
  case None
  then show ?thesis by (simp add: postMode_missing)
next
  case (Some d)
  let ?m = "jget body ''mode''"
  let ?st1 = "publish (commandTopic (jget d ''id'')) (json_body [(''mode'', ?m)]) st"
  show ?thesis
  proof (rule keeps_after_update)
    show "\<not> useDatabase ?st1" using assms(1) by (simp add: publish_fields)
    show "memoryDevices ?st1 = memoryDevices st" by (simp add: publish_fields)
    show "k \<notin> fst ` set [(''mode'', ?m)]"
      using assms(2) by (auto simp: snakeKey_def)
    show "k \<noteq> ''lastUpdate''" using assms(2) by (auto simp: snakeKey_def)
    show "memoryDevices (fst (postMode st did body now))
          = memoryDevices (fst (updateDevice ?st1 did [(''mode'', ?m)] now))"
      using Some by (simp add: postMode_def Let_def split_def emit_fields)
  qed
qed

lemma pumpControl_keeps:
  assumes "\<not> useDatabase st" and "snakeKey k"
  shows "keyColumn k (pumpControl st did action now) = keyColumn k st"
proof -
  let ?t = "action = JStr ''on''"
  let ?st1 = "publish (commandTopic (JStr did)) [(''pump'', JBool ?t)] st"
  show ?thesis
  proof (rule keeps_after_update)
    show "\<not> useDatabase ?st1" using assms(1) by (simp add: publish_fields)
    show "memoryDevices ?st1 = memoryDevices st" by (simp add: publish_fields)
    show "k \<notin> fst ` set (pumpUpdates ?t)"
      using assms(2) by (auto simp: snakeKey_def pumpUpdates_def)
    show "k \<noteq> ''lastUpdate''" using assms(2) by (auto simp: snakeKey_def)
    show "memoryDevices (pumpControl st did action now)
          = memoryDevices (fst (updateDevice ?st1 did (pumpUpdates ?t) now))"
      by (simp add: pumpControl_def Let_def split_def emit_fields split: option.splits)
  qed
qed

lemma checkOfflineDevices_keeps:
  assumes "snakeKey k"
  shows "keyColumn k (checkOfflineDevices st now) = keyColumn k st"
  unfolding keyColumn_def
  by (rule sweep_keeps_other_keys) (use assms in \<open>auto simp: snakeKey_def\<close>)

lemma step_keeps:
  assumes "\<not> useDatabase st" and "snakeKey k"
  shows "keyColumn k (step st ev) = keyColumn k st"
proof -
  obtain opn now where ev: "ev = (opn, now)" by (cases ev)
  show ?thesis
    unfolding ev using assms
    by (cases opn)
       (simp_all add: mqttMessage_keeps postPump_keeps postMode_keeps pumpControl_keeps
          checkOfflineDevices_keeps postData_def handleDeviceData_keeps)
qed

lemma step_useDatabase: "useDatabase (step st ev) = useDatabase st"
proof -
  obtain opn now where ev: "ev = (opn, now)" by (cases ev)
  show ?thesis
    unfolding ev
    by (cases opn)
       (simp_all add: mqttMessage_useDatabase postData_def handleDeviceData_useDatabase
          postPump_def postMode_def pumpControl_def Let_def split_def emit_fields
          updateDevice_fst_fields publish_fields checkOfflineDevices_fields
          split: option.splits)
qed

lemma run_keeps:
  assumes "\<not> useDatabase st" and "snakeKey k"
  shows "keyColumn k (run st ops) = keyColumn k st"
  using assms(1)
proof (induction ops arbitrary: st)
  case Nil
  then show ?case by (simp add: run_def)
next
  case (Cons ev ops)
  have "\<not> useDatabase (step st ev)" using Cons.prems by (simp add: step_useDatabase)
  from Cons.IH [OF this] step_keeps [OF Cons.prems assms(2), of ev]
  show ?case by (simp add: run_def)
qed

text \<open>
  Claim C10: in the in-memory fallback, \<open>getDevices\<close> and \<open>getDevice\<close> return the stored
  records as they are; \<open>updateDevice\<close> assigns the keys of the patch as they are spelled
  and then \<open>lastUpdate\<close>; no run of the server's operations changes what a record holds
  under a snake-case key; so a record that has the snake-case keys (the seeded one)
  holds both spellings after a telemetry message, the snake-case ones with their
  original values: \<open>soilMoisture\<close> beside \<open>soil_moisture\<close>, \<open>pumpActive\<close> beside
  \<open>pump_active\<close>, \<open>lastUpdate\<close> beside \<open>last_update\<close>.
\<close>

theorem memory_fallback_keeps_snake_case:
  assumes "\<not> useDatabase st"
  shows "getDevices st = memoryDevices st
       \<and> getDevice st did = find (\<lambda>x. jget x ''id'' = JStr did) (memoryDevices st)
       \<and> (\<forall>d. getDevice st did = Some d \<longrightarrow>
            updateDevice st did updates now
              = (st\<lparr>memoryDevices :=
                      replaceFirst (\<lambda>x. jget x ''id'' = JStr did)
                        (assign (assign d updates) [(''lastUpdate'', JDate now)])
                        (memoryDevices st)\<rparr>,
                 Some (assign (assign d updates) [(''lastUpdate'', JDate now)])))
       \<and> (\<forall>k. snakeKey k \<longrightarrow> keyColumn k (run st ops) = keyColumn k st)
       \<and> (\<forall>d. getDevice st did = Some d \<longrightarrow> data \<noteq> JNull \<longrightarrow> data \<noteq> JUndefined \<longrightarrow>
            (\<exists>d'. getDevice (fst (handleDeviceData st did data now)) did = Some d'
               \<and> jget d' ''soilMoisture'' = readProp data ''soilPercent''
               \<and> jget d' ''soil_moisture'' = jget d ''soil_moisture''
               \<and> jget d' ''pumpActive'' = jor (readProp data ''pumpActive'') (JBool False)
               \<and> jget d' ''pump_active'' = jget d ''pump_active''
               \<and> jget d' ''lastUpdate'' = JDate now
               \<and> jget d' ''last_update'' = jget d ''last_update''))"
proof (intro conjI allI impI)
  show "getDevices st = memoryDevices st" using assms by (simp add: getDevices_def)
  show "getDevice st did = find (\<lambda>x. jget x ''id'' = JStr did) (memoryDevices st)"
    using assms by (simp add: getDevice_def)
next
  fix d assume "getDevice st did = Some d"
  then have "find (\<lambda>x. jget x ''id'' = JStr did) (memoryDevices st) = Some d"
    using assms by (simp add: getDevice_def)
  then show "updateDevice st did updates now
              = (st\<lparr>memoryDevices :=
                      replaceFirst (\<lambda>x. jget x ''id'' = JStr did)
                        (assign (assign d updates) [(''lastUpdate'', JDate now)])
                        (memoryDevices st)\<rparr>,
                 Some (assign (assign d updates) [(''lastUpdate'', JDate now)]))"
    using assms by (rule updateDevice_memory [rotated])
next
  fix k assume "snakeKey k"
  with assms show "keyColumn k (run st ops) = keyColumn k st" by (rule run_keeps)
next
  fix d assume s: "getDevice st did = Some d" and a: "data \<noteq> JNull" and b: "data \<noteq> JUndefined"
  let ?st0 = "st\<lparr>deviceLastSeen := (deviceLastSeen st)(did \<mapsto> now)\<rparr>"
  from handleDeviceData_registered [OF s a b, of now] obtain st1 d' where
    u: "updateDevice ?st0 did (telemetryUpdates data) now = (st1, Some d')"
    and g: "getDevice (fst (handleDeviceData st did data now)) did = Some d'"
    by blast
  have m0: "\<not> useDatabase ?st0" using assms by simp
  have s0: "getDevice ?st0 did = Some d"
    using s getDevice_same [of ?st0 st did] by simp
  from updateDevice_memory_frame [OF m0 u] s0
  have d': "d' = assign (assign d (telemetryUpdates data)) [(''lastUpdate'', JDate now)]"
    by auto
  have k: "''soil_moisture'' \<notin> fst ` set (telemetryUpdates data)"
    "''pump_active'' \<notin> fst ` set (telemetryUpdates data)"
    "''last_update'' \<notin> fst ` set (telemetryUpdates data)"
    by (simp_all add: telemetryUpdates_def)
  have "jget d' ''soilMoisture'' = readProp data ''soilPercent''"
    and "jget d' ''pumpActive'' = jor (readProp data ''pumpActive'') (JBool False)"
    and "jget d' ''lastUpdate'' = JDate now"
    by (simp_all add: d' jget_assign distinct_telemetryUpdates map_of_telemetryUpdates)
  moreover have "jget d' ''soil_moisture'' = jget d ''soil_moisture''"
    and "jget d' ''pump_active'' = jget d ''pump_active''"
    and "jget d' ''last_update'' = jget d ''last_update''"
    using k by (simp_all add: d' jget_assign_other)
  ultimately show "\<exists>d'. getDevice (fst (handleDeviceData st did data now)) did = Some d'
               \<and> jget d' ''soilMoisture'' = readProp data ''soilPercent''
               \<and> jget d' ''soil_moisture'' = jget d ''soil_moisture''
               \<and> jget d' ''pumpActive'' = jor (readProp data ''pumpActive'') (JBool False)
               \<and> jget d' ''pump_active'' = jget d ''pump_active''
               \<and> jget d' ''lastUpdate'' = JDate now
               \<and> jget d' ''last_update'' = jget d ''last_update''"
    using g by blast
qed

theorem memory_fallback_keeps_snake_case_witness:
  "\<not> useDatabase (initMemory 5)
   \<and> keyColumn ''soil_moisture''
        (run (initMemory 5)
           [(Telemetry ''device_001''
               (Some (JObj [(''temperature'', JNum 30), (''humidity'', JNum 60),
                            (''soilPercent'', JNum 50)])), 1000),
            (PumpRoute ''device_001'' [(''action'', JStr ''on'')], 2000),
            (Sweep, 32000)])
       = [JNum 78]
   \<and> (\<exists>d'. getDevice
              (fst (handleDeviceData (initMemory 5) ''device_001''
                      (JObj [(''temperature'', JNum 30), (''humidity'', JNum 60),
                             (''soilPercent'', JNum 50)]) 1000))
              ''device_001'' = Some d'
          \<and> jget d' ''soilMoisture'' = JNum 50 \<and> jget d' ''soil_moisture'' = JNum 78
          \<and> jget d' ''pumpActive'' = JBool False \<and> jget d' ''pump_active'' = JBool False
          \<and> jget d' ''lastUpdate'' = JDate 1000 \<and> jget d' ''last_update'' = JDate 5)"
proof -
  let ?data = "JObj [(''temperature'', JNum 30), (''humidity'', JNum 60), (''soilPercent'', JNum 50)]"
  let ?ops = "[(Telemetry ''device_001'' (Some ?data), 1000),
               (PumpRoute ''device_001'' [(''action'', JStr ''on'')], 2000),
               (Sweep, 32000)]"
  have m: "\<not> useDatabase (initMemory 5)" by (simp add: initMemory_def)
  have s: "getDevice (initMemory 5) ''device_001'' = Some (seedDevice 5)"
    by (simp add: getDevice_def initMemory_def seedDevice_def jget_def)
  have c: "keyColumn ''soil_moisture'' (initMemory 5) = [JNum 78]"
    by (simp add: keyColumn_def initMemory_def seedDevice_def jget_def)
  have k: "snakeKey ''soil_moisture''" by (simp add: snakeKey_def)
  have v: "jget (seedDevice 5) ''soil_moisture'' = JNum 78"
    "jget (seedDevice 5) ''pump_active'' = JBool False"
    "jget (seedDevice 5) ''last_update'' = JDate 5"
    by (simp_all add: seedDevice_def jget_def)
  have r: "readProp ?data ''soilPercent'' = JNum 50"
    "jor (readProp ?data ''pumpActive'') (JBool False) = JBool False"
    by (simp_all add: jget_def jor_def)
  note t = memory_fallback_keeps_snake_case
             [OF m, where did = "''device_001''" and ops = ?ops and data = ?data and now = 1000]
  from t k c have 1: "keyColumn ''soil_moisture'' (run (initMemory 5) ?ops) = [JNum 78]"
    by simp
  from t s obtain d' where
    "getDevice (fst (handleDeviceData (initMemory 5) ''device_001'' ?data 1000)) ''device_001''
       = Some d'"
    "jget d' ''soilMoisture'' = readProp ?data ''soilPercent''"
    "jget d' ''soil_moisture'' = jget (seedDevice 5) ''soil_moisture''"
    "jget d' ''pumpActive'' = jor (readProp ?data ''pumpActive'') (JBool False)"
    "jget d' ''pump_active'' = jget (seedDevice 5) ''pump_active''"
    "jget d' ''lastUpdate'' = JDate 1000"
    "jget d' ''last_update'' = jget (seedDevice 5) ''last_update''"
    by (auto simp del: readProp.simps)
  then show ?thesis using m 1 v r by (auto simp del: readProp.simps)
qed

end
